theory Spec2Isabelle
  imports Complex_Main "HOL-Library.Multiset"
begin

section \<open>JavaScript values and host functions\<close>

text \<open>
  The dashboard logic lives in \<^verbatim>\<open>src/frontend/src/App.jsx\<close>. Its pure transformations
  (\<^verbatim>\<open>trendData\<close>, \<^verbatim>\<open>studioData\<close>, \<^verbatim>\<open>chartData\<close>, \<^verbatim>\<open>demographicSplit\<close>) and the action
  \<^verbatim>\<open>generateBriefing\<close> are embedded below, one definition per source function.

  A JavaScript number is either a finite value or NaN. Finite values are kept exact
  (rationals); IEEE rounding and the infinities are outside the model.
\<close>

datatype jsnum = Num rat | NaN

datatype jsval = JUndefined | JNull | JNumber jsnum | JString string

text \<open>ToBoolean, as used by \<^verbatim>\<open>||\<close> and \<^verbatim>\<open>!\<close>.\<close>

fun truthy :: "jsval \<Rightarrow> bool" where
  "truthy JUndefined = False"
| "truthy JNull = False"
| "truthy (JNumber NaN) = False"
| "truthy (JNumber (Num q)) = (q \<noteq> 0)"
| "truthy (JString s) = (s \<noteq> [])"

text \<open>
  Built-in functions of the JavaScript engine that the source calls and that work on the
  text of a string or on the digits of a number. They are parameters of the model:
  \<^item> \<open>date_parse s\<close> is the time value of \<^verbatim>\<open>new Date(s)\<close>, \<open>None\<close> for an Invalid Date
    (whose time value is NaN);
  \<^item> \<open>parse_float_str s\<close> is \<^verbatim>\<open>parseFloat(s)\<close> on a string;
  \<^item> \<open>string_to_number s\<close> is ToNumber on a string (the conversion \<^verbatim>\<open>*\<close> applies);
  \<^item> \<open>to_fixed1 q\<close> is \<^verbatim>\<open>q.toFixed(1)\<close> on a finite number.
\<close>

record host =
  date_parse :: "string \<Rightarrow> int option"
  parse_float_str :: "string \<Rightarrow> jsnum"
  string_to_number :: "string \<Rightarrow> jsnum"
  to_fixed1 :: "rat \<Rightarrow> string"

fun js_mul :: "jsnum \<Rightarrow> jsnum \<Rightarrow> jsnum" where
  "js_mul (Num a) (Num b) = Num (a * b)"
| "js_mul _ _ = NaN"

fun to_number :: "host \<Rightarrow> jsval \<Rightarrow> jsnum" where
  "to_number h JUndefined = NaN"
| "to_number h JNull = Num 0"
| "to_number h (JNumber n) = n"
| "to_number h (JString s) = string_to_number h s"

text \<open>\<^verbatim>\<open>parseFloat(v)\<close> reads the string form of \<open>v\<close>: \<^verbatim>\<open>"undefined"\<close> and \<^verbatim>\<open>"null"\<close>
  give NaN, the string form of a number reads back as that number.\<close>

fun parseFloat :: "host \<Rightarrow> jsval \<Rightarrow> jsnum" where
  "parseFloat h JUndefined = NaN"
| "parseFloat h JNull = NaN"
| "parseFloat h (JNumber n) = n"
| "parseFloat h (JString s) = parse_float_str h s"

text \<open>\<^verbatim>\<open>n.toFixed(1)\<close>: a number that is not finite prints as its name.\<close>

fun toFixed1 :: "host \<Rightarrow> jsnum \<Rightarrow> string" where
  "toFixed1 h NaN = ''NaN''"
| "toFixed1 h (Num q) = to_fixed1 h q"

subsection \<open>Plain objects used as dictionaries\<close>

text \<open>
  Both reducers start from the literal \<^verbatim>\<open>{}\<close> and use it as a dictionary keyed by a
  string. The own properties are kept as an association list in creation order.
  Two facts of the language matter for what the reducers compute:
  \<^item> \<^verbatim>\<open>acc[k]\<close> also finds the members \<^verbatim>\<open>{}\<close> inherits from \<^verbatim>\<open>Object.prototype\<close>; all of
    them are truthy, so for such a key \<^verbatim>\<open>!acc[k]\<close> is false, no own bucket is created and
    the following \<^verbatim>\<open>+=\<close> lands on the inherited member, not on \<^verbatim>\<open>acc\<close>;
  \<^item> \<^verbatim>\<open>Object.values\<close> lists the own properties whose key is an array index (the canonical
    decimal form of an integer below \<open>2^32 - 1\<close>) first, in ascending numeric order, and
    the other keys after them in creation order.
\<close>

type_synonym 'a js_object = "(string \<times> 'a) list"

definition object_prototype_keys :: "string list" where
  "object_prototype_keys =
     [''constructor'', ''__proto__'', ''hasOwnProperty'', ''isPrototypeOf'',
      ''propertyIsEnumerable'', ''toLocaleString'', ''toString'', ''valueOf'',
      ''__defineGetter__'', ''__defineSetter__'', ''__lookupGetter__'',
      ''__lookupSetter__'']"

definition inherited :: "string \<Rightarrow> bool" where
  "inherited k = (k \<in> set object_prototype_keys)"

definition digit_of :: "char \<Rightarrow> nat option" where
  "digit_of c = (if c \<in> set ''0123456789'' then Some (of_char c - 48) else None)"

fun digits_value :: "nat \<Rightarrow> string \<Rightarrow> nat option" where
  "digits_value acc [] = Some acc"
| "digits_value acc (c # cs) =
     (case digit_of c of None \<Rightarrow> None | Some d \<Rightarrow> digits_value (10 * acc + d) cs)"

definition array_index :: "string \<Rightarrow> nat option" where
  "array_index s =
     (case s of
        [] \<Rightarrow> None
      | c # cs \<Rightarrow>
          if c = CHR ''0'' \<and> cs \<noteq> [] then None
          else (case digits_value 0 s of
                  None \<Rightarrow> None
                | Some n \<Rightarrow> if n < 2 ^ 32 - 1 then Some n else None))"

definition is_index :: "string \<Rightarrow> bool" where
  "is_index k = (array_index k \<noteq> None)"

definition index_of :: "string \<Rightarrow> nat" where
  "index_of k = (case array_index k of None \<Rightarrow> 0 | Some n \<Rightarrow> n)"

definition object_values :: "'a js_object \<Rightarrow> 'a list" where
  "object_values obj =
     map snd (sort_key (\<lambda>kv. index_of (fst kv)) (filter (\<lambda>kv. is_index (fst kv)) obj))
     @ map snd (filter (\<lambda>kv. \<not> is_index (fst kv)) obj)"

text \<open>
  The pattern of both reducers,
  \<^verbatim>\<open>if (!acc[k]) acc[k] = init; acc[k].field += ...\<close>,
  with \<open>f\<close> the update of the bucket.
\<close>

definition bump :: "'a js_object \<Rightarrow> string \<Rightarrow> 'a \<Rightarrow> ('a \<Rightarrow> 'a) \<Rightarrow> 'a js_object" where
  "bump acc k init f =
     (if inherited k then acc
      else
        let acc1 = (if map_of acc k = None then acc @ [(k, init)] else acc)
        in map (\<lambda>kv. if fst kv = k then (fst kv, f (snd kv)) else kv) acc1)"

subsection \<open>Array.prototype.sort with a comparator\<close>

text \<open>
  The comparator returns a number, \<open>None\<close> standing for NaN. The sort is stable, and a NaN
  result is read as \<open>+0\<close> (SortCompare), so an element moves behind another one only when
  the comparator is positive. When the comparator, read this way, orders the elements
  consistently, every stable sort returns the list the insertion sort below returns.
  When it does not (NaN on some pairs, a sign on others), the language leaves the order to
  the engine and the insertion sort is one possible outcome. Nothing below rests on that
  case: the ordering theorems are stated for comparators that never return NaN, and the
  concrete runs with an undated bucket hold at most one parseable date, so that every
  comparison in them is NaN or zero.
\<close>

definition sorts_after :: "('a \<Rightarrow> 'a \<Rightarrow> int option) \<Rightarrow> 'a \<Rightarrow> 'a \<Rightarrow> bool" where
  "sorts_after cmp x y = (case cmp x y of None \<Rightarrow> False | Some v \<Rightarrow> 0 < v)"

fun sort_insert :: "('a \<Rightarrow> 'a \<Rightarrow> int option) \<Rightarrow> 'a \<Rightarrow> 'a list \<Rightarrow> 'a list" where
  "sort_insert cmp x [] = [x]"
| "sort_insert cmp x (y # ys) =
     (if sorts_after cmp x y then y # sort_insert cmp x ys else x # y # ys)"

definition array_sort :: "('a \<Rightarrow> 'a \<Rightarrow> int option) \<Rightarrow> 'a list \<Rightarrow> 'a list" where
  "array_sort cmp xs = foldr (sort_insert cmp) xs []"

section \<open>Aggregator\<close>

text \<open>
  A row of \<^verbatim>\<open>rawData\<close>, as \<^verbatim>\<open>/api/summary\<close> delivers it. A field is \<open>None\<close> when the
  property is missing or null. Metrics are integers (the data model's counts); the
  source does not check their sign.
\<close>

record row =
  date :: "string option"
  state :: "string option"
  district :: "string option"
  total_updates :: "int option"
  total_enrolment :: "int option"
  age_0_5 :: "int option"
  age_5_17 :: "int option"
  age_18_greater :: "int option"

text \<open>\<^verbatim>\<open>x || 0\<close> on a metric and \<^verbatim>\<open>s || fallback\<close> on a string field.\<close>

definition or_zero :: "int option \<Rightarrow> int" where
  "or_zero x = (case x of None \<Rightarrow> 0 | Some n \<Rightarrow> n)"

definition or_else :: "string option \<Rightarrow> string \<Rightarrow> string" where
  "or_else x d = (case x of None \<Rightarrow> d | Some s \<Rightarrow> if s = [] then d else s)"

subsection \<open>trendData (lines 61-71)\<close>

text \<open>A bucket \<^verbatim>\<open>{date, updates, enrolments}\<close>; its field \<^verbatim>\<open>date\<close> is \<open>tdate\<close> here.\<close>

record trend_point =
  tdate :: string
  updates :: int
  enrolments :: int

definition date_key :: "row \<Rightarrow> string" where
  "date_key cur = or_else (date cur) ''N/A''"

definition trend_reducer :: "trend_point js_object \<Rightarrow> row \<Rightarrow> trend_point js_object" where
  "trend_reducer acc cur =
     (let d = date_key cur
      in bump acc d \<lparr>tdate = d, updates = 0, enrolments = 0\<rparr>
           (\<lambda>p. p\<lparr>updates := updates p + or_zero (total_updates cur),
                  enrolments := enrolments p + or_zero (total_enrolment cur)\<rparr>))"

text \<open>The comparator \<^verbatim>\<open>(a, b) => new Date(a.date) - new Date(b.date)\<close>.\<close>

definition date_cmp :: "host \<Rightarrow> trend_point \<Rightarrow> trend_point \<Rightarrow> int option" where
  "date_cmp h a b =
     (case (date_parse h (tdate a), date_parse h (tdate b)) of
        (Some x, Some y) \<Rightarrow> Some (x - y)
      | _ \<Rightarrow> None)"

definition trendData :: "host \<Rightarrow> row list \<Rightarrow> trend_point list" where
  "trendData h rawData =
     (if rawData = [] then []
      else array_sort (date_cmp h) (object_values (foldl trend_reducer [] rawData)))"

subsection \<open>studioData (lines 73-82)\<close>

text \<open>
  \<^verbatim>\<open>pivotX\<close> and \<^verbatim>\<open>pivotY\<close> are set only from the two \<^verbatim>\<open><select>\<close> elements (lines
  281-291) and start as \<^verbatim>\<open>'district'\<close> and \<^verbatim>\<open>'total_updates'\<close>.
\<close>

datatype dimension = ByState | ByDistrict | Timeline

datatype metric = TotalUpdates | Enrolments

fun dimension_field :: "dimension \<Rightarrow> row \<Rightarrow> string option" where
  "dimension_field ByState cur = state cur"
| "dimension_field ByDistrict cur = district cur"
| "dimension_field Timeline cur = date cur"

fun metric_field :: "metric \<Rightarrow> row \<Rightarrow> int option" where
  "metric_field TotalUpdates cur = total_updates cur"
| "metric_field Enrolments cur = total_enrolment cur"

record pivot_entry =
  name :: string
  amount :: int

definition pivot_key :: "dimension \<Rightarrow> row \<Rightarrow> string" where
  "pivot_key pivotX cur = or_else (dimension_field pivotX cur) ''Unknown''"

definition studio_reducer ::
  "dimension \<Rightarrow> metric \<Rightarrow> pivot_entry js_object \<Rightarrow> row \<Rightarrow> pivot_entry js_object" where
  "studio_reducer pivotX pivotY acc cur =
     (let xVal = pivot_key pivotX cur
      in bump acc xVal \<lparr>name = xVal, amount = 0\<rparr>
           (\<lambda>e. e\<lparr>amount := amount e + or_zero (metric_field pivotY cur)\<rparr>))"

text \<open>The comparator \<^verbatim>\<open>(a, b) => b.value - a.value\<close>; the field \<^verbatim>\<open>value\<close> is \<open>amount\<close> here.\<close>

definition amount_cmp :: "pivot_entry \<Rightarrow> pivot_entry \<Rightarrow> int option" where
  "amount_cmp a b = Some (amount b - amount a)"

definition studioData :: "dimension \<Rightarrow> metric \<Rightarrow> row list \<Rightarrow> pivot_entry list" where
  "studioData pivotX pivotY rawData =
     (if rawData = [] then []
      else take 12 (array_sort amount_cmp
             (object_values (foldl (studio_reducer pivotX pivotY) [] rawData))))"

subsection \<open>demographicSplit (lines 108-121)\<close>

record age_totals =
  infants :: int
  students :: int
  adults :: int

record bar = pivot_entry +
  color :: string

definition age_reducer :: "age_totals \<Rightarrow> row \<Rightarrow> age_totals" where
  "age_reducer acc cur =
     acc\<lparr>infants := infants acc + or_zero (age_0_5 cur),
         students := students acc + or_zero (age_5_17 cur),
         adults := adults acc + or_zero (age_18_greater cur)\<rparr>"

definition demographicSplit :: "row list \<Rightarrow> bar list" where
  "demographicSplit rawData =
     (if rawData = [] then []
      else
        let s = foldl age_reducer \<lparr>infants = 0, students = 0, adults = 0\<rparr> rawData
        in [\<lparr>name = ''Infants (0-5)'', amount = infants s, color = ''#38bdf8''\<rparr>,
            \<lparr>name = ''Students (5-17)'', amount = students s, color = ''#818cf8''\<rparr>,
            \<lparr>name = ''Adults (18+)'', amount = adults s, color = ''#c084fc''\<rparr>])"

section \<open>Forecast display: chartData (lines 84-106)\<close>

text \<open>
  \<^verbatim>\<open>predictionDetails\<close> is the body of \<^verbatim>\<open>/api/model-comparison\<close>, or null before it
  arrives. Each model's entry may be absent; its fields are whatever JSON holds.
\<close>

record prediction =
  val :: jsval
  confidence :: jsval

record prediction_details =
  xgboost :: "prediction option"
  random_forest :: "prediction option"

datatype js_error = TypeError | RequestFailed

text \<open>
  A point of the chart series: \<open>cupdates\<close> and \<open>cenrolments\<close> are \<open>None\<close> for the
  source's \<^verbatim>\<open>null\<close>, the two forecast fields are \<open>None\<close> when the object has no such
  property. \<open>plain d\<close> is the trend point \<open>d\<close> itself, which has neither forecast.
\<close>

record chart_point =
  cdate :: string
  cupdates :: "int option"
  cenrolments :: "int option"
  xgbForecast :: "jsnum option"
  rfForecast :: "jsnum option"

definition plain :: "trend_point \<Rightarrow> chart_point" where
  "plain d =
     \<lparr>cdate = tdate d, cupdates = Some (updates d), cenrolments = Some (enrolments d),
      xgbForecast = None, rfForecast = None\<rparr>"

definition forecastNode :: "jsnum \<Rightarrow> jsnum \<Rightarrow> chart_point" where
  "forecastNode xgbVal rfVal =
     \<lparr>cdate = ''Next Cycle (Est)'', cupdates = None, cenrolments = None,
      xgbForecast = Some xgbVal, rfForecast = Some rfVal\<rparr>"

definition updatedHistory :: "trend_point list \<Rightarrow> chart_point list" where
  "updatedHistory trend =
     map (\<lambda>(i, d).
            if i = length trend - 1
            then (plain d)\<lparr>xgbForecast := Some (Num (of_int (updates d))),
                           rfForecast := Some (Num (of_int (updates d)))\<rparr>
            else plain d)
         (enumerate 0 trend)"

text \<open>Reading \<^verbatim>\<open>.val\<close> of an absent entry throws a TypeError.\<close>

definition chartData ::
  "host \<Rightarrow> trend_point list \<Rightarrow> prediction_details option \<Rightarrow> js_error + chart_point list" where
  "chartData h trend predictionDetails =
     (case predictionDetails of
        None \<Rightarrow> Inr (map plain trend)
      | Some pd \<Rightarrow>
          if trend = [] then Inr (map plain trend)
          else (case xgboost pd of
                  None \<Rightarrow> Inl TypeError
                | Some x \<Rightarrow>
                    (case random_forest pd of
                       None \<Rightarrow> Inl TypeError
                     | Some r \<Rightarrow>
                         let xgbVal = js_mul (parseFloat h (val x)) (Num 1000000);
                             rfVal = js_mul (parseFloat h (val r)) (Num 1000000)
                         in Inr (updatedHistory trend @ [forecastNode xgbVal rfVal]))))"

section \<open>Component state and generateBriefing (lines 18-27, 124-142)\<close>

record app_state =
  rawData :: "row list"
  governanceData :: "(string \<times> rat) list"
  predictionDetails :: "prediction_details option"
  status :: string
  activeModel :: string
  aiBriefing :: jsval
  isAiLoading :: bool
  pivotX :: dimension
  pivotY :: metric
  uploadStatus :: "string option"

text \<open>The body posted to \<^verbatim>\<open>/api/ai-interpret\<close>: \<^verbatim>\<open>{model, volume, confidence, district}\<close>.\<close>

record briefing_request =
  req_model :: string
  req_volume :: jsval
  req_confidence :: string
  req_district :: string

text \<open>
  What \<^verbatim>\<open>await axios.post(...)\<close> does: the promise is rejected (no answer, a timeout, a
  status outside 2xx), or it resolves to a response whose \<^verbatim>\<open>data\<close> is null or undefined
  (\<open>None\<close>) or a value with the given own properties (a string or a number has none
  that matter here).
\<close>

datatype post_result = Rejected | Resolved "jsval js_object option"

definition modelKey :: "string \<Rightarrow> string" where
  "modelKey active = (if active = ''XGBoost'' then ''xgboost'' else ''random_forest'')"

text \<open>\<^verbatim>\<open>predictionDetails?.[modelKey]\<close>\<close>

definition currentPred :: "app_state \<Rightarrow> prediction option" where
  "currentPred s =
     (case predictionDetails s of
        None \<Rightarrow> None
      | Some pd \<Rightarrow>
          if modelKey (activeModel s) = ''xgboost'' then xgboost pd else random_forest pd)"

definition briefing_payload :: "host \<Rightarrow> app_state \<Rightarrow> briefing_request" where
  "briefing_payload h s =
     \<lparr>req_model = activeModel s,
      req_volume =
        (case currentPred s of
           None \<Rightarrow> JString ''N/A''
         | Some p \<Rightarrow> if truthy (val p) then val p else JString ''N/A''),
      req_confidence =
        toFixed1 h
          (js_mul (to_number h (case currentPred s of None \<Rightarrow> JUndefined | Some p \<Rightarrow> confidence p))
                  (Num 100))
        @ ''%'',
      req_district = ''National Strategic Grid''\<rparr>"

definition failure_text :: string where
  "failure_text = ''Strategic Briefing failed. Verify backend AI configuration.''"

text \<open>The \<^verbatim>\<open>try\<close> block: the value handed to \<^verbatim>\<open>setAiBriefing\<close>, or the error thrown.\<close>

definition try_block :: "post_result \<Rightarrow> js_error + jsval" where
  "try_block res =
     (case res of
        Rejected \<Rightarrow> Inl RequestFailed
      | Resolved None \<Rightarrow> Inl TypeError
      | Resolved (Some props) \<Rightarrow>
          Inr (case map_of props ''interpretation'' of None \<Rightarrow> JUndefined | Some v \<Rightarrow> v))"

text \<open>
  A run of \<^verbatim>\<open>generateBriefing\<close>: the state after it and the requests it sent.
  \<open>post\<close> is the remote end.
\<close>

record briefing_run =
  after :: app_state
  sent :: "briefing_request list"

definition generateBriefing ::
  "host \<Rightarrow> (briefing_request \<Rightarrow> post_result) \<Rightarrow> app_state \<Rightarrow> js_error + briefing_run" where
  "generateBriefing h post s =
     (let s1 = s\<lparr>isAiLoading := True\<rparr>;
          request = briefing_payload h s;
          s2 = (case try_block (post request) of
                  Inr v \<Rightarrow> s1\<lparr>aiBriefing := v\<rparr>
                | Inl err \<Rightarrow> s1\<lparr>aiBriefing := JString failure_text\<rparr>);
          s3 = s2\<lparr>isAiLoading := False\<rparr>
      in Inr \<lparr>after = s3, sent = [request]\<rparr>)"

text \<open>The derived views of a state, as the \<^verbatim>\<open>useMemo\<close> hooks compute them.\<close>

definition view_trend :: "host \<Rightarrow> app_state \<Rightarrow> trend_point list" where
  "view_trend h s = trendData h (rawData s)"

definition view_studio :: "app_state \<Rightarrow> pivot_entry list" where
  "view_studio s = studioData (pivotX s) (pivotY s) (rawData s)"

definition view_chart :: "host \<Rightarrow> app_state \<Rightarrow> js_error + chart_point list" where
  "view_chart h s = chartData h (view_trend h s) (predictionDetails s)"

section \<open>Model Arbiter\<close>

text \<open>
  Modelled from the spec: the Model Arbiter of section 4.3. The code that compares the two
  models (behind \<^verbatim>\<open>/api/model-comparison\<close>) is not among the sources; the frontend only
  shows both results and starts with \<^verbatim>\<open>'XGBoost'\<close> selected. The definition follows the
  spec's words: the lower stability score wins when the two scores differ by more than
  the tolerance, the lower mean error decides otherwise, and no decision is made until
  both results are there.
\<close>

datatype model_id = XGBoost | RandomForest

record forecast_result =
  model_name :: model_id
  stability_score :: rat
  mean_error :: rat

datatype arbiter_decision = Pending | Default model_id

text \<open>
  Modelled from the spec: the tie-break of the Arbiter (section 4.3), the lower mean error.
  The spec does not say which model wins when the mean errors are equal too; the first
  one does here.
\<close>

definition by_accuracy :: "forecast_result \<Rightarrow> forecast_result \<Rightarrow> model_id" where
  "by_accuracy a b = (if mean_error a \<le> mean_error b then model_name a else model_name b)"

text \<open>
  Modelled from the spec: the Arbiter's decision (section 4.3), \<open>Pending\<close> until both
  results are available. The tolerance is an absolute difference of the two scores.
\<close>

definition arbiter ::
  "rat \<Rightarrow> forecast_result option \<Rightarrow> forecast_result option \<Rightarrow> arbiter_decision" where
  "arbiter tolerance ra rb =
     (case (ra, rb) of
        (Some a, Some b) \<Rightarrow>
          if \<bar>stability_score a - stability_score b\<bar> \<le> tolerance then Default (by_accuracy a b)
          else if stability_score a < stability_score b then Default (model_name a)
          else Default (model_name b)
      | _ \<Rightarrow> Pending)"

section \<open>Briefing Gateway\<close>

text \<open>
  Modelled from the spec: the circuit breaker of the Briefing Gateway (section 4.5). No
  breaker is among the sources: \<^verbatim>\<open>generateBriefing\<close> above posts on every call. The
  definition follows the spec's words: three states, CLOSED to OPEN after
  \<open>threshold\<close> consecutive failures, OPEN to HALF-OPEN when the cooldown has elapsed (an
  event of its own here, since the clock is outside the model), one probe in HALF-OPEN
  whose outcome closes or reopens the breaker. \<open>external_calls\<close> is the call count a
  mock collaborator would record.
\<close>

datatype breaker_state = CLOSED | OPEN | HALF_OPEN

datatype failure_reason =
  GatewayTimeout | GatewayUpstreamError | GatewayMalformedResponse | BreakerOpen

datatype external_outcome = Interpretation string | TimedOut | ErrorStatus | Malformed

record gateway =
  breaker :: breaker_state
  consecutive_failures :: nat
  external_calls :: nat

record briefing_response =
  briefing_text :: string
  reason :: "failure_reason option"

text \<open>
  Modelled from the spec: the fallback response of the Gateway (section 4.5). The spec
  asks for a fixed text that states degraded mode and fixes no wording.
\<close>

definition fallback_text :: string where
  "fallback_text = ''AI briefing unavailable (degraded mode).''"

definition fallback :: "failure_reason \<Rightarrow> briefing_response" where
  "fallback r = \<lparr>briefing_text = fallback_text, reason = Some r\<rparr>"

text \<open>
  Modelled from the spec: the breaker's transition OPEN to HALF-OPEN when the cooldown
  interval has elapsed (section 4.5).
\<close>

definition cooldown_elapsed :: "gateway \<Rightarrow> gateway" where
  "cooldown_elapsed g = (if breaker g = OPEN then g\<lparr>breaker := HALF_OPEN\<rparr> else g)"

text \<open>
  Modelled from the spec: the breaker's reaction to a failed external call (section 4.5):
  the failure is counted; a failed probe reopens the breaker, and so does reaching the
  threshold of consecutive failures. The sliding window is left out.
\<close>

definition on_outcome ::
  "breaker_state \<Rightarrow> nat \<Rightarrow> gateway \<Rightarrow> failure_reason \<Rightarrow> briefing_response \<times> gateway" where
  "on_outcome st threshold g r =
     (let n = consecutive_failures g + 1
      in (fallback r,
          g\<lparr>consecutive_failures := n,
            breaker := (if st = HALF_OPEN \<or> threshold \<le> n then OPEN else CLOSED)\<rparr>))"

text \<open>
  Modelled from the spec: a call that is let through to the external service (section
  4.5), from CLOSED or as the probe of HALF-OPEN. A success closes the breaker and
  resets the count.
\<close>

definition pass_through ::
  "nat \<Rightarrow> (briefing_request \<Rightarrow> external_outcome) \<Rightarrow> gateway \<Rightarrow> briefing_request
     \<Rightarrow> briefing_response \<times> gateway" where
  "pass_through threshold ext g req =
     (let g1 = g\<lparr>external_calls := external_calls g + 1\<rparr>
      in case ext req of
           Interpretation t \<Rightarrow>
             (\<lparr>briefing_text = t, reason = None\<rparr>,
              g1\<lparr>consecutive_failures := 0, breaker := CLOSED\<rparr>)
         | TimedOut \<Rightarrow> on_outcome (breaker g) threshold g1 GatewayTimeout
         | ErrorStatus \<Rightarrow> on_outcome (breaker g) threshold g1 GatewayUpstreamError
         | Malformed \<Rightarrow> on_outcome (breaker g) threshold g1 GatewayMalformedResponse)"

text \<open>
  Modelled from the spec: a briefing call at the Gateway (section 4.5), short-circuited
  while the breaker is OPEN.
\<close>

definition gateway_call ::
  "nat \<Rightarrow> (briefing_request \<Rightarrow> external_outcome) \<Rightarrow> gateway \<Rightarrow> briefing_request
     \<Rightarrow> briefing_response \<times> gateway" where
  "gateway_call threshold ext g req =
     (case breaker g of
        OPEN \<Rightarrow> (fallback BreakerOpen, g)
      | CLOSED \<Rightarrow> pass_through threshold ext g req
      | HALF_OPEN \<Rightarrow> pass_through threshold ext g req)"

text \<open>
  Modelled from the spec: a sequence of briefing calls at the Gateway with no cooldown
  event in between.
\<close>

fun gateway_calls ::
  "nat \<Rightarrow> (briefing_request \<Rightarrow> external_outcome) \<Rightarrow> gateway \<Rightarrow> briefing_request list
     \<Rightarrow> briefing_response list \<times> gateway" where
  "gateway_calls threshold ext g [] = ([], g)"
| "gateway_calls threshold ext g (req # reqs) =
     (let (r, g1) = gateway_call threshold ext g req;
          (rs, g2) = gateway_calls threshold ext g1 reqs
      in (r # rs, g2))"

section \<open>A host for concrete runs\<close>

text \<open>
  The built-ins on the few strings and numbers the concrete runs below use: the two ISO
  dates are read as midnight UTC (milliseconds since the epoch) and every other string,
  \<^verbatim>\<open>'N/A'\<close> and \<^verbatim>\<open>'garbage'\<close> among them, is not a date; \<^verbatim>\<open>"1.5"\<close> reads as the
  number 1.5, and 90 prints with one digit as \<^verbatim>\<open>"90.0"\<close>. What the table gives
  elsewhere is never looked at.
\<close>

definition demo_host :: host where
  "demo_host =
     \<lparr>date_parse = (\<lambda>s. if s = ''2025-01-01'' then Some 1735689600000
                         else if s = ''2025-01-02'' then Some 1735776000000
                         else None),
      parse_float_str = (\<lambda>s. if s = ''1.5'' then Num (3 / 2) else NaN),
      string_to_number = (\<lambda>s. if s = ''1.5'' then Num (3 / 2) else NaN),
      to_fixed1 = (\<lambda>q. if q = 90 then ''90.0'' else [])\<rparr>"

definition blank_row :: row where
  "blank_row =
     \<lparr>date = None, state = None, district = None, total_updates = None,
      total_enrolment = None, age_0_5 = None, age_5_17 = None, age_18_greater = None\<rparr>"

text \<open>The component's state before anything has loaded (the \<^verbatim>\<open>useState\<close> defaults).\<close>

definition initial_state :: app_state where
  "initial_state =
     \<lparr>rawData = [], governanceData = [], predictionDetails = None,
      status = ''INITIALIZING'', activeModel = ''XGBoost'', aiBriefing = JString '''',
      isAiLoading = False, pivotX = ByDistrict, pivotY = TotalUpdates,
      uploadStatus = None\<rparr>"

section \<open>What the aggregations are expected to hold\<close>

text \<open>
  The notions the statements about the Aggregator are phrased in, written from the
  data model's description and not from the reducers: the keys of a record set in the
  order of first appearance, and one group per key with the sums of its rows.
\<close>

fun first_seen :: "'a list \<Rightarrow> 'a list" where
  "first_seen [] = []"
| "first_seen (x # xs) = x # filter (\<lambda>y. y \<noteq> x) (first_seen xs)"

definition group_keys :: "(row \<Rightarrow> string) \<Rightarrow> row list \<Rightarrow> string list" where
  "group_keys key rows = filter (\<lambda>k. \<not> inherited k) (first_seen (map key rows))"

definition group_sum :: "(row \<Rightarrow> int option) \<Rightarrow> (row \<Rightarrow> string) \<Rightarrow> string \<Rightarrow> row list \<Rightarrow> int" where
  "group_sum field key k rows = (\<Sum>r\<leftarrow>filter (\<lambda>r. key r = k) rows. or_zero (field r))"

definition trend_groups :: "row list \<Rightarrow> trend_point list" where
  "trend_groups rows =
     map (\<lambda>k. \<lparr>tdate = k, updates = group_sum total_updates date_key k rows,
                enrolments = group_sum total_enrolment date_key k rows\<rparr>)
         (group_keys date_key rows)"

definition pivot_groups :: "dimension \<Rightarrow> metric \<Rightarrow> row list \<Rightarrow> pivot_entry list" where
  "pivot_groups px py rows =
     map (\<lambda>k. \<lparr>name = k, amount = group_sum (metric_field py) (pivot_key px) k rows\<rparr>)
         (group_keys (pivot_key px) rows)"

text \<open>
  The order of two trend points by the time values of their dates: \<open>earlier\<close> is strict,
  \<open>not_later\<close> is not. A date that is not parseable has no time value and stands in
  neither relation to anything.
\<close>

definition earlier :: "host \<Rightarrow> trend_point \<Rightarrow> trend_point \<Rightarrow> bool" where
  "earlier h a b =
     (case (date_parse h (tdate a), date_parse h (tdate b)) of
        (Some x, Some y) \<Rightarrow> x < y
      | _ \<Rightarrow> False)"

definition not_later :: "host \<Rightarrow> trend_point \<Rightarrow> trend_point \<Rightarrow> bool" where
  "not_later h a b =
     (case (date_parse h (tdate a), date_parse h (tdate b)) of
        (Some x, Some y) \<Rightarrow> x \<le> y
      | _ \<Rightarrow> False)"

section \<open>Record sets for concrete runs\<close>

definition dated :: "string \<Rightarrow> int \<Rightarrow> int \<Rightarrow> row" where
  "dated d u e = blank_row\<lparr>date := Some d, total_updates := Some u, total_enrolment := Some e\<rparr>"

definition undated :: "int \<Rightarrow> int \<Rightarrow> row" where
  "undated u e = blank_row\<lparr>total_updates := Some u, total_enrolment := Some e\<rparr>"

definition in_district :: "string \<Rightarrow> int \<Rightarrow> row" where
  "in_district d u = blank_row\<lparr>district := Some d, total_updates := Some u\<rparr>"

text \<open>Two days, the later one first and split over two rows.\<close>

definition rows_two_days :: "row list" where
  "rows_two_days = [dated ''2025-01-02'' 1 0, dated ''2025-01-01'' 2 0, dated ''2025-01-02'' 5 7]"

text \<open>A row without a date, followed by a dated row.\<close>

definition rows_undated_first :: "row list" where
  "rows_undated_first = [undated 1 0, dated ''2025-01-01'' 2 0]"

text \<open>
  Rows whose date is missing, empty and the text \<^verbatim>\<open>'N/A'\<close>, two rows with an unparseable
  date, and a row whose date is the name of an inherited member.
\<close>

definition rows_mixed_dates :: "row list" where
  "rows_mixed_dates =
     [undated 1 0, dated '''' 2 3, dated ''garbage'' 4 0, dated ''N/A'' 10 0,
      dated ''constructor'' 9 0, dated ''garbage'' 1 1]"

text \<open>A trend series and prediction details that lack the entry of one model.\<close>

definition one_point_trend :: "trend_point list" where
  "one_point_trend = [\<lparr>tdate = ''2025-01-01'', updates = 10, enrolments = 4\<rparr>]"

definition details_without_random_forest :: prediction_details where
  "details_without_random_forest =
     \<lparr>xgboost = Some \<lparr>val = JString ''1.5'', confidence = JNumber (Num (9 / 10))\<rparr>,
      random_forest = None\<rparr>"

text \<open>A row without a date, a dated row, and a row whose date is not parseable.\<close>

definition rows_unparseable :: "row list" where
  "rows_unparseable = [undated 1 0, dated ''2025-01-01'' 2 0, dated ''garbage'' 3 0]"

text \<open>Three districts, two of them with the same total, and a row without district.\<close>

definition rows_tied_districts :: "row list" where
  "rows_tied_districts =
     [in_district ''Mysuru'' 5, in_district ''Udupi'' 9, in_district ''Bidar'' 3,
      blank_row\<lparr>total_updates := Some 1\<rparr>, in_district ''Bidar'' 2]"

text \<open>Two districts named by numbers, with the same total.\<close>

definition rows_numbered_districts :: "row list" where
  "rows_numbered_districts = [in_district ''2'' 5, in_district ''1'' 5]"

text \<open>Fifteen districts, each on one row, with totals 1 to 15.\<close>

definition rows_fifteen_districts :: "row list" where
  "rows_fifteen_districts =
     [in_district ''Bagalkot'' 1, in_district ''Ballari'' 2, in_district ''Belagavi'' 3,
      in_district ''Bidar'' 4, in_district ''Chamarajanagar'' 5, in_district ''Dakshina Kannada'' 6,
      in_district ''Davanagere'' 7, in_district ''Dharwad'' 8, in_district ''Gadag'' 9,
      in_district ''Hassan'' 10, in_district ''Haveri'' 11, in_district ''Kodagu'' 12,
      in_district ''Kolar'' 13, in_district ''Mandya'' 14, in_district ''Mysuru'' 15]"

text \<open>A district and a row whose district is the name of an inherited member.\<close>

definition rows_inherited_name :: "row list" where
  "rows_inherited_name = [in_district ''Udupi'' 3, in_district ''constructor'' 9]"

section \<open>Demographic split\<close>

lemma foldl_age_reducer:
  "foldl age_reducer acc rs =
     \<lparr>infants = infants acc + (\<Sum>r\<leftarrow>rs. or_zero (age_0_5 r)),
      students = students acc + (\<Sum>r\<leftarrow>rs. or_zero (age_5_17 r)),
      adults = adults acc + (\<Sum>r\<leftarrow>rs. or_zero (age_18_greater r))\<rparr>"
proof (induction rs arbitrary: acc)
  case Nil
  show ?case by simp
next
  case (Cons r rs)
  show ?case
    by (simp only: foldl_Cons Cons.IH) (simp add: age_reducer_def algebra_simps)
qed

text \<open>
  C8 (as amended). For a record set that is not empty, \<^verbatim>\<open>demographicSplit\<close> is exactly
  three bars, in the order infants, students, adults, holding the sums of \<^verbatim>\<open>age_0_5\<close>,
  \<^verbatim>\<open>age_5_17\<close> and \<^verbatim>\<open>age_18_greater\<close> over all rows (a missing field counting as 0).
  For the empty record set the guard \<^verbatim>\<open>if (!rawData.length) return []\<close> returns the empty
  list: no error, and no bars either.
\<close>

theorem demographicSplit_sums:
  "demographicSplit [] = [] \<and>
   (rows \<noteq> [] \<longrightarrow>
      demographicSplit rows =
        [\<lparr>name = ''Infants (0-5)'', amount = (\<Sum>r\<leftarrow>rows. or_zero (age_0_5 r)),
          color = ''#38bdf8''\<rparr>,
         \<lparr>name = ''Students (5-17)'', amount = (\<Sum>r\<leftarrow>rows. or_zero (age_5_17 r)),
          color = ''#818cf8''\<rparr>,
         \<lparr>name = ''Adults (18+)'', amount = (\<Sum>r\<leftarrow>rows. or_zero (age_18_greater r)),
          color = ''#c084fc''\<rparr>])"
proof
  show "demographicSplit [] = []"
    by (simp add: demographicSplit_def)
next
  show "rows \<noteq> [] \<longrightarrow>
      demographicSplit rows =
        [\<lparr>name = ''Infants (0-5)'', amount = (\<Sum>r\<leftarrow>rows. or_zero (age_0_5 r)),
          color = ''#38bdf8''\<rparr>,
         \<lparr>name = ''Students (5-17)'', amount = (\<Sum>r\<leftarrow>rows. or_zero (age_5_17 r)),
          color = ''#818cf8''\<rparr>,
         \<lparr>name = ''Adults (18+)'', amount = (\<Sum>r\<leftarrow>rows. or_zero (age_18_greater r)),
          color = ''#c084fc''\<rparr>]"
    by (simp add: demographicSplit_def foldl_age_reducer Let_def)
qed

theorem demographicSplit_sums_witness:
  "demographicSplit [blank_row\<lparr>age_0_5 := Some 3, age_5_17 := Some 1\<rparr>,
                     blank_row\<lparr>age_0_5 := Some 4, age_18_greater := Some 9\<rparr>] =
     [\<lparr>name = ''Infants (0-5)'', amount = 7, color = ''#38bdf8''\<rparr>,
      \<lparr>name = ''Students (5-17)'', amount = 1, color = ''#818cf8''\<rparr>,
      \<lparr>name = ''Adults (18+)'', amount = 9, color = ''#c084fc''\<rparr>]"
  using demographicSplit_sums [of "[blank_row\<lparr>age_0_5 := Some 3, age_5_17 := Some 1\<rparr>,
                     blank_row\<lparr>age_0_5 := Some 4, age_18_greater := Some 9\<rparr>]"]
  by (simp add: blank_row_def or_zero_def)

text \<open>
  C8 as stated fails on the empty record set: the result is the empty list, not three
  bars of zero.
\<close>

theorem demographicSplit_empty_counterexample:
  "demographicSplit [] = [] \<and>
   demographicSplit [] \<noteq>
     [\<lparr>name = ''Infants (0-5)'', amount = 0, color = ''#38bdf8''\<rparr>,
      \<lparr>name = ''Students (5-17)'', amount = 0, color = ''#818cf8''\<rparr>,
      \<lparr>name = ''Adults (18+)'', amount = 0, color = ''#c084fc''\<rparr>]"
  by (simp add: demographicSplit_def)

section \<open>Chart series\<close>

lemma updatedHistory_snoc:
  "updatedHistory (ds @ [d]) =
     map plain ds @ [(plain d)\<lparr>xgbForecast := Some (Num (of_int (updates d))),
                               rfForecast := Some (Num (of_int (updates d)))\<rparr>]"
proof -
  have "\<forall>p \<in> set (enumerate 0 ds). fst p \<noteq> length ds"
    by (auto simp: in_set_enumerate_eq)
  then have "map (\<lambda>(i, e).
            if i = length ds
            then (plain e)\<lparr>xgbForecast := Some (Num (of_int (updates e))),
                           rfForecast := Some (Num (of_int (updates e)))\<rparr>
            else plain e) (enumerate 0 ds) = map (\<lambda>p. plain (snd p)) (enumerate 0 ds)"
    by (intro map_cong) auto
  also have "\<dots> = map (plain \<circ> snd) (enumerate 0 ds)"
    by (simp add: comp_def)
  also have "\<dots> = map plain ds"
    by (simp only: map_map [symmetric] map_snd_enumerate)
  finally show ?thesis
    by (simp add: updatedHistory_def enumerate_append_eq)
qed

text \<open>
  With the entries of both models present and a trend series that is not empty,
  \<^verbatim>\<open>chartData\<close> is the trend series with one node appended: every point but the last is
  carried over as it is, the last point also carries its own \<^verbatim>\<open>updates\<close> in both
  forecast fields, and the appended node \<^verbatim>\<open>"Next Cycle (Est)"\<close> has null \<^verbatim>\<open>updates\<close> and
  \<^verbatim>\<open>enrolments\<close> and, as forecasts, \<^verbatim>\<open>parseFloat(val) * 1000000\<close> of each model (the
  product is exact here; the source's is the nearest double).
\<close>

lemma chartData_with_both_entries:
  assumes "details = Some pd" and "xgboost pd = Some x"
    and "random_forest pd = Some r" and "trend \<noteq> []"
  shows "chartData h trend details =
           Inr (map plain (butlast trend)
                @ [(plain (last trend))
                     \<lparr>xgbForecast := Some (Num (of_int (updates (last trend)))),
                      rfForecast := Some (Num (of_int (updates (last trend))))\<rparr>,
                   forecastNode (js_mul (parseFloat h (val x)) (Num 1000000))
                                (js_mul (parseFloat h (val r)) (Num 1000000))])"
proof -
  from \<open>trend \<noteq> []\<close> obtain ds d where t: "trend = ds @ [d]"
    by (cases trend rule: rev_cases) auto
  show ?thesis
    using assms(1-3) by (simp add: chartData_def t updatedHistory_snoc)
qed

lemma chartData_with_both_entries_example:
  "chartData demo_host
     [\<lparr>tdate = ''2025-01-01'', updates = 10, enrolments = 4\<rparr>,
      \<lparr>tdate = ''2025-01-02'', updates = 12, enrolments = 5\<rparr>]
     (Some \<lparr>xgboost = Some \<lparr>val = JString ''1.5'', confidence = JNumber (Num (9 / 10))\<rparr>,
            random_forest = Some \<lparr>val = JNumber (Num 2), confidence = JUndefined\<rparr>\<rparr>) =
   Inr [\<lparr>cdate = ''2025-01-01'', cupdates = Some 10, cenrolments = Some 4,
         xgbForecast = None, rfForecast = None\<rparr>,
        \<lparr>cdate = ''2025-01-02'', cupdates = Some 12, cenrolments = Some 5,
         xgbForecast = Some (Num 12), rfForecast = Some (Num 12)\<rparr>,
        \<lparr>cdate = ''Next Cycle (Est)'', cupdates = None, cenrolments = None,
         xgbForecast = Some (Num 1500000), rfForecast = Some (Num 2000000)\<rparr>]"
  using chartData_with_both_entries
    [of "Some \<lparr>xgboost = Some \<lparr>val = JString ''1.5'', confidence = JNumber (Num (9 / 10))\<rparr>,
               random_forest = Some \<lparr>val = JNumber (Num 2), confidence = JUndefined\<rparr>\<rparr>"
        "\<lparr>xgboost = Some \<lparr>val = JString ''1.5'', confidence = JNumber (Num (9 / 10))\<rparr>,
          random_forest = Some \<lparr>val = JNumber (Num 2), confidence = JUndefined\<rparr>\<rparr>"
        "\<lparr>val = JString ''1.5'', confidence = JNumber (Num (9 / 10))\<rparr>"
        "\<lparr>val = JNumber (Num 2), confidence = JUndefined\<rparr>"
        "[\<lparr>tdate = ''2025-01-01'', updates = 10, enrolments = 4\<rparr>,
          \<lparr>tdate = ''2025-01-02'', updates = 12, enrolments = 5\<rparr>]"
        demo_host]
  by (simp add: plain_def forecastNode_def demo_host_def)

text \<open>
  The guard of \<^verbatim>\<open>chartData\<close> only asks that \<^verbatim>\<open>predictionDetails\<close> is there. When it is and
  the entry of either model is missing, reading \<^verbatim>\<open>.val\<close> of the missing entry throws.
\<close>

lemma chartData_missing_entry:
  assumes "trend \<noteq> []" and "xgboost pd = None \<or> random_forest pd = None"
  shows "chartData h trend (Some pd) = Inl TypeError"
  using assms by (auto simp add: chartData_def split: option.splits)

text \<open>
  C9. The claim is that, with prediction details available and a trend series that is not
  empty, \<^verbatim>\<open>chartData\<close> is the trend series with the forecast node appended. The source
  does not do that on every such input: with a one-point series and prediction details
  that hold the \<^verbatim>\<open>xgboost\<close> entry only, line 89 reads \<^verbatim>\<open>.val\<close> of undefined and
  \<^verbatim>\<open>chartData\<close> ends in a TypeError instead of a series. The other readers of
  \<^verbatim>\<open>predictionDetails\<close> (lines 127, 212, 359) go through \<^verbatim>\<open>?.\<close> and survive the same
  input.
\<close>

theorem chartData_missing_entry_throws:
  "one_point_trend \<noteq> [] \<and>
   chartData demo_host one_point_trend (Some details_without_random_forest) = Inl TypeError"
  by (simp add: chartData_def one_point_trend_def details_without_random_forest_def)

section \<open>generateBriefing\<close>

text \<open>
  Whatever the remote end does, a run ends without an error, has sent exactly one
  request, and has written only \<^verbatim>\<open>aiBriefing\<close> and \<^verbatim>\<open>isAiLoading\<close>.
\<close>

lemma generateBriefing_after:
  "generateBriefing h post s =
     Inr \<lparr>after = s\<lparr>aiBriefing := (case try_block (post (briefing_payload h s)) of
                                      Inr v \<Rightarrow> v | Inl err \<Rightarrow> JString failure_text),
                     isAiLoading := False\<rparr>,
          sent = [briefing_payload h s]\<rparr>"
  by (simp add: generateBriefing_def Let_def split: sum.splits)

text \<open>
  C3 (as amended). \<^verbatim>\<open>generateBriefing\<close> never raises and always clears the loading flag.
  When the request is rejected (no answer, timeout, error status) or the response
  carries no body, the briefing becomes the one fixed text
  \<^verbatim>\<open>"Strategic Briefing failed. Verify backend AI configuration."\<close>. A response that
  arrives with a body is not checked for its shape: the briefing becomes the body's
  \<^verbatim>\<open>interpretation\<close> property, which is undefined when the body has none.
\<close>

theorem generateBriefing_degrades:
  "\<exists>run. generateBriefing h post s = Inr run \<and>
     isAiLoading (after run) = False \<and>
     ((post (briefing_payload h s) = Rejected \<or> post (briefing_payload h s) = Resolved None)
        \<longrightarrow> aiBriefing (after run) = JString failure_text) \<and>
     (\<forall>props. post (briefing_payload h s) = Resolved (Some props) \<longrightarrow>
        aiBriefing (after run) =
          (case map_of props ''interpretation'' of None \<Rightarrow> JUndefined | Some v \<Rightarrow> v))"
proof (intro exI conjI allI impI)
  show "generateBriefing h post s =
     Inr \<lparr>after = s\<lparr>aiBriefing := (case try_block (post (briefing_payload h s)) of
                                      Inr v \<Rightarrow> v | Inl err \<Rightarrow> JString failure_text),
                     isAiLoading := False\<rparr>,
          sent = [briefing_payload h s]\<rparr>"
    by (rule generateBriefing_after)
next
  show "isAiLoading (after \<lparr>after = s\<lparr>aiBriefing := (case try_block (post (briefing_payload h s)) of
                                      Inr v \<Rightarrow> v | Inl err \<Rightarrow> JString failure_text),
                     isAiLoading := False\<rparr>,
          sent = [briefing_payload h s]\<rparr>) = False"
    by simp
next
  assume "post (briefing_payload h s) = Rejected \<or> post (briefing_payload h s) = Resolved None"
  then show "aiBriefing (after \<lparr>after = s\<lparr>aiBriefing := (case try_block (post (briefing_payload h s)) of
                                      Inr v \<Rightarrow> v | Inl err \<Rightarrow> JString failure_text),
                     isAiLoading := False\<rparr>,
          sent = [briefing_payload h s]\<rparr>) = JString failure_text"
    by (auto simp add: try_block_def)
next
  fix props
  assume "post (briefing_payload h s) = Resolved (Some props)"
  then show "aiBriefing (after \<lparr>after = s\<lparr>aiBriefing := (case try_block (post (briefing_payload h s)) of
                                      Inr v \<Rightarrow> v | Inl err \<Rightarrow> JString failure_text),
                     isAiLoading := False\<rparr>,
          sent = [briefing_payload h s]\<rparr>) =
          (case map_of props ''interpretation'' of None \<Rightarrow> JUndefined | Some v \<Rightarrow> v)"
    by (simp add: try_block_def)
qed

theorem generateBriefing_degrades_witness:
  "\<exists>run. generateBriefing demo_host (\<lambda>_. Rejected) initial_state = Inr run \<and>
     isAiLoading (after run) = False \<and>
     aiBriefing (after run) =
       JString ''Strategic Briefing failed. Verify backend AI configuration.''"
  using generateBriefing_degrades [of demo_host "\<lambda>_. Rejected" initial_state]
  by (auto simp add: failure_text_def)

text \<open>
  C3 as stated fails for a malformed response: the service answers with a body that has
  no \<^verbatim>\<open>interpretation\<close> (here \<^verbatim>\<open>{error: "quota"}\<close>), nothing is thrown, and the
  briefing becomes undefined instead of the fallback text.
\<close>

theorem generateBriefing_malformed_counterexample:
  "generateBriefing demo_host (\<lambda>_. Resolved (Some [(''error'', JString ''quota'')]))
     initial_state =
     Inr \<lparr>after = initial_state\<lparr>aiBriefing := JUndefined\<rparr>,
          sent = [\<lparr>req_model = ''XGBoost'', req_volume = JString ''N/A'',
                   req_confidence = ''NaN%'', req_district = ''National Strategic Grid''\<rparr>]\<rparr>
   \<and> JUndefined \<noteq> JString failure_text"
  by (simp add: generateBriefing_after try_block_def briefing_payload_def currentPred_def
      initial_state_def)

text \<open>
  C4. A run of \<^verbatim>\<open>generateBriefing\<close>, whatever the remote end answers, returns the state
  it started from with only \<^verbatim>\<open>aiBriefing\<close> and \<^verbatim>\<open>isAiLoading\<close> written: the record set,
  the prediction details, the selected model and the pivot selection are the same, and so
  are the trend series, the pivot and the chart series computed from them.
\<close>

theorem generateBriefing_frame:
  "\<exists>run. generateBriefing h post s = Inr run \<and>
     after run = s\<lparr>aiBriefing := aiBriefing (after run), isAiLoading := False\<rparr> \<and>
     rawData (after run) = rawData s \<and>
     predictionDetails (after run) = predictionDetails s \<and>
     activeModel (after run) = activeModel s \<and>
     governanceData (after run) = governanceData s \<and>
     pivotX (after run) = pivotX s \<and> pivotY (after run) = pivotY s \<and>
     status (after run) = status s \<and> uploadStatus (after run) = uploadStatus s \<and>
     view_trend h' (after run) = view_trend h' s \<and>
     view_studio (after run) = view_studio s \<and>
     view_chart h' (after run) = view_chart h' s"
proof -
  let ?s' = "s\<lparr>aiBriefing := (case try_block (post (briefing_payload h s)) of
                                 Inr v \<Rightarrow> v | Inl err \<Rightarrow> JString failure_text),
               isAiLoading := False\<rparr>"
  let ?run = "\<lparr>after = ?s', sent = [briefing_payload h s]\<rparr>"
  have run: "generateBriefing h post s = Inr ?run"
    by (rule generateBriefing_after)
  have written: "after ?run = s\<lparr>aiBriefing := aiBriefing (after ?run), isAiLoading := False\<rparr>"
    by simp
  have kept: "rawData (after ?run) = rawData s"
    "predictionDetails (after ?run) = predictionDetails s"
    "activeModel (after ?run) = activeModel s"
    "governanceData (after ?run) = governanceData s"
    "pivotX (after ?run) = pivotX s" "pivotY (after ?run) = pivotY s"
    "status (after ?run) = status s" "uploadStatus (after ?run) = uploadStatus s"
    by simp_all
  then have views: "view_trend h' (after ?run) = view_trend h' s"
    "view_studio (after ?run) = view_studio s"
    "view_chart h' (after ?run) = view_chart h' s"
    by (simp_all only: view_trend_def view_studio_def view_chart_def)
  from run written kept views show ?thesis
    by (intro exI [of _ ?run] conjI)
qed

theorem generateBriefing_frame_witness:
  "\<exists>run. generateBriefing demo_host
            (\<lambda>_. Resolved (Some [(''interpretation'', JString ''Stable outlook.'')]))
            (initial_state\<lparr>rawData := [blank_row\<lparr>total_updates := Some 7\<rparr>]\<rparr>) = Inr run \<and>
     rawData (after run) = [blank_row\<lparr>total_updates := Some 7\<rparr>] \<and>
     predictionDetails (after run) = None \<and>
     activeModel (after run) = ''XGBoost'' \<and>
     aiBriefing (after run) = JString ''Stable outlook.''"
  using generateBriefing_frame
    [of demo_host "\<lambda>_. Resolved (Some [(''interpretation'', JString ''Stable outlook.'')])"
        "initial_state\<lparr>rawData := [blank_row\<lparr>total_updates := Some 7\<rparr>]\<rparr>" demo_host]
  by (auto simp add: generateBriefing_after try_block_def initial_state_def)

text \<open>
  With the selected model's entry present, the request carries its \<^verbatim>\<open>val\<close> and its
  confidence as a percentage with one digit.
\<close>

lemma briefing_payload_present:
  "briefing_payload demo_host
     (initial_state\<lparr>predictionDetails :=
        Some \<lparr>xgboost = Some \<lparr>val = JString ''1.5'', confidence = JNumber (Num (9 / 10))\<rparr>,
              random_forest = None\<rparr>\<rparr>) =
   \<lparr>req_model = ''XGBoost'', req_volume = JString ''1.5'', req_confidence = ''90.0%'',
    req_district = ''National Strategic Grid''\<rparr>"
  by (simp add: briefing_payload_def currentPred_def modelKey_def initial_state_def
      demo_host_def)

text \<open>
  C10. When the selected model has no entry (\<^verbatim>\<open>currentPred\<close> is undefined, as it is
  before \<^verbatim>\<open>predictionDetails\<close> has loaded), \<^verbatim>\<open>generateBriefing\<close> still sends its one
  request, with volume \<^verbatim>\<open>"N/A"\<close> and confidence \<^verbatim>\<open>"NaN%"\<close>.
\<close>

theorem generateBriefing_absent_prediction:
  assumes "currentPred s = None"
  shows "\<exists>run. generateBriefing h post s = Inr run \<and>
           sent run = [\<lparr>req_model = activeModel s, req_volume = JString ''N/A'',
                        req_confidence = ''NaN%'',
                        req_district = ''National Strategic Grid''\<rparr>]"
  using assms by (simp add: generateBriefing_after briefing_payload_def)

theorem generateBriefing_absent_prediction_witness:
  "currentPred initial_state = None \<and>
   (\<exists>run. generateBriefing demo_host (\<lambda>_. Rejected) initial_state = Inr run \<and>
           sent run = [\<lparr>req_model = ''XGBoost'', req_volume = JString ''N/A'',
                        req_confidence = ''NaN%'',
                        req_district = ''National Strategic Grid''\<rparr>])"
proof -
  have h: "currentPred initial_state = None"
    by (simp add: currentPred_def initial_state_def)
  show ?thesis
    using h generateBriefing_absent_prediction [OF h, of demo_host "\<lambda>_. Rejected"]
    by (simp add: initial_state_def)
qed

section \<open>Model Arbiter\<close>

text \<open>
  C1. When one stability score is lower than the other by more than the tolerance, the
  arbiter's default is the model with the lower score, whatever the mean errors are; when
  the two scores are within the tolerance of each other, the default is the model with
  the lower mean error.
\<close>

theorem arbiter_prefers_stability:
  "(stability_score a < stability_score b \<and> tolerance < stability_score b - stability_score a
      \<longrightarrow> arbiter tolerance (Some a) (Some b) = Default (model_name a)) \<and>
   (stability_score b < stability_score a \<and> tolerance < stability_score a - stability_score b
      \<longrightarrow> arbiter tolerance (Some a) (Some b) = Default (model_name b)) \<and>
   (\<bar>stability_score a - stability_score b\<bar> \<le> tolerance \<and> mean_error a < mean_error b
      \<longrightarrow> arbiter tolerance (Some a) (Some b) = Default (model_name a)) \<and>
   (\<bar>stability_score a - stability_score b\<bar> \<le> tolerance \<and> mean_error b < mean_error a
      \<longrightarrow> arbiter tolerance (Some a) (Some b) = Default (model_name b))"
proof (intro conjI impI)
  assume "stability_score a < stability_score b \<and>
          tolerance < stability_score b - stability_score a"
  then show "arbiter tolerance (Some a) (Some b) = Default (model_name a)"
    by (simp add: arbiter_def)
next
  assume "stability_score b < stability_score a \<and>
          tolerance < stability_score a - stability_score b"
  then show "arbiter tolerance (Some a) (Some b) = Default (model_name b)"
    by (simp add: arbiter_def)
next
  assume "\<bar>stability_score a - stability_score b\<bar> \<le> tolerance \<and> mean_error a < mean_error b"
  then show "arbiter tolerance (Some a) (Some b) = Default (model_name a)"
    by (simp add: arbiter_def by_accuracy_def)
next
  assume "\<bar>stability_score a - stability_score b\<bar> \<le> tolerance \<and> mean_error b < mean_error a"
  then show "arbiter tolerance (Some a) (Some b) = Default (model_name b)"
    by (simp add: arbiter_def by_accuracy_def)
qed

theorem arbiter_prefers_stability_witness:
  "arbiter (1 / 100)
     (Some \<lparr>model_name = XGBoost, stability_score = 1 / 10, mean_error = 5\<rparr>)
     (Some \<lparr>model_name = RandomForest, stability_score = 3 / 10, mean_error = 4\<rparr>)
   = Default XGBoost \<and>
   arbiter (1 / 100)
     (Some \<lparr>model_name = XGBoost, stability_score = 300 / 1000, mean_error = 5\<rparr>)
     (Some \<lparr>model_name = RandomForest, stability_score = 301 / 1000, mean_error = 4\<rparr>)
   = Default RandomForest"
  using arbiter_prefers_stability
    [of "\<lparr>model_name = XGBoost, stability_score = 1 / 10, mean_error = 5\<rparr>"
        "\<lparr>model_name = RandomForest, stability_score = 3 / 10, mean_error = 4\<rparr>" "1 / 100"]
    arbiter_prefers_stability
    [of "\<lparr>model_name = XGBoost, stability_score = 300 / 1000, mean_error = 5\<rparr>"
        "\<lparr>model_name = RandomForest, stability_score = 301 / 1000, mean_error = 4\<rparr>" "1 / 100"]
  by simp

section \<open>Briefing Gateway\<close>

lemma gateway_call_open:
  "breaker g = OPEN \<Longrightarrow> gateway_call threshold ext g req = (fallback BreakerOpen, g)"
  by (simp add: gateway_call_def)

text \<open>
  How the breaker gets there: with a threshold of 2, two calls that time out open it; the
  third call is answered without a third external call.
\<close>

lemma gateway_trips_after_threshold:
  "gateway_calls 2 (\<lambda>_. TimedOut)
     \<lparr>breaker = CLOSED, consecutive_failures = 0, external_calls = 0\<rparr> [req, req, req] =
   ([fallback GatewayTimeout, fallback GatewayTimeout, fallback BreakerOpen],
    \<lparr>breaker = OPEN, consecutive_failures = 2, external_calls = 2\<rparr>)"
  by (simp add: gateway_call_def pass_through_def on_outcome_def Let_def)

text \<open>
  C2. While the breaker is OPEN, every briefing call returns the fallback response with
  the reason \<open>BreakerOpen\<close> and leaves the gateway as it was: the count of external calls
  does not move, whatever the external service would have answered and however many
  calls are made.
\<close>

theorem gateway_open_short_circuits:
  assumes "breaker g = OPEN"
  shows "gateway_calls threshold ext g reqs = (map (\<lambda>_. fallback BreakerOpen) reqs, g)"
proof (induction reqs)
  case Nil
  show ?case by simp
next
  case (Cons req reqs)
  show ?case
    by (simp add: gateway_call_open [OF assms] Cons.IH)
qed

theorem gateway_open_short_circuits_witness:
  "breaker \<lparr>breaker = OPEN, consecutive_failures = 3, external_calls = 0\<rparr> = OPEN \<and>
   gateway_calls 3 (\<lambda>_. Interpretation ''text'')
     \<lparr>breaker = OPEN, consecutive_failures = 3, external_calls = 0\<rparr>
     [briefing_payload demo_host initial_state, briefing_payload demo_host initial_state]
   = ([\<lparr>briefing_text = fallback_text, reason = Some BreakerOpen\<rparr>,
       \<lparr>briefing_text = fallback_text, reason = Some BreakerOpen\<rparr>],
      \<lparr>breaker = OPEN, consecutive_failures = 3, external_calls = 0\<rparr>)"
proof -
  have h: "breaker \<lparr>breaker = OPEN, consecutive_failures = 3, external_calls = 0\<rparr> = OPEN"
    by simp
  show ?thesis
    using h gateway_open_short_circuits [OF h, of 3 "\<lambda>_. Interpretation ''text''"
        "[briefing_payload demo_host initial_state, briefing_payload demo_host initial_state]"]
    by (simp add: fallback_def)
qed

section \<open>Aggregator: grouping, listing and sorting\<close>

lemma first_seen_set [simp]: "set (first_seen xs) = set xs"
  by (induction xs) auto

lemma first_seen_distinct [simp]: "distinct (first_seen xs)"
  by (induction xs) auto

lemma first_seen_snoc:
  "first_seen (xs @ [x]) = (if x \<in> set xs then first_seen xs else first_seen xs @ [x])"
  by (induction xs) auto

lemma group_keys_snoc:
  "group_keys key (rs @ [r]) =
     (if inherited (key r) \<or> key r \<in> set (group_keys key rs) then group_keys key rs
      else group_keys key rs @ [key r])"
  by (auto simp add: group_keys_def first_seen_snoc)

lemma group_keys_distinct: "distinct (group_keys key rs)"
  by (simp add: group_keys_def)

lemma group_keys_set: "set (group_keys key rs) = {k \<in> key ` set rs. \<not> inherited k}"
  by (auto simp add: group_keys_def)

text \<open>
  A fold of the bucket pattern over the rows builds one bucket per key that is not an
  inherited member, in the order the keys first appear, each holding the fold of its
  own rows.
\<close>

lemma map_of_tabulate_None:
  "(map_of (map (\<lambda>k. (k, g k)) ks) k0 = None) = (k0 \<notin> set ks)"
  by (induction ks) auto

lemma bump_fold:
  "foldl (\<lambda>acc r. bump acc (key r) (init (key r)) (upd r)) [] rs =
     map (\<lambda>k. (k, foldl (\<lambda>v r. upd r v) (init k) (filter (\<lambda>r. key r = k) rs)))
         (group_keys key rs)"
proof (induction rs rule: rev_induct)
  case Nil
  show ?case by (simp add: group_keys_def)
next
  case (snoc r rs)
  let ?val = "\<lambda>rs k. foldl (\<lambda>v r. upd r v) (init k) (filter (\<lambda>r. key r = k) rs)"
  let ?k0 = "key r"
  have not_inh: "\<And>k. k \<in> set (group_keys key rs) \<Longrightarrow> \<not> inherited k"
    by (simp add: group_keys_set)
  have step: "foldl (\<lambda>acc r. bump acc (key r) (init (key r)) (upd r)) [] (rs @ [r]) =
      bump (map (\<lambda>k. (k, ?val rs k)) (group_keys key rs)) ?k0 (init ?k0) (upd r)"
    by (simp only: foldl_append foldl_Cons foldl_Nil snoc.IH)
  show ?case
  proof (cases "inherited ?k0")
    case True
    then have "\<And>k. k \<in> set (group_keys key rs) \<Longrightarrow> key r \<noteq> k"
      using not_inh by auto
    then have "map (\<lambda>k. (k, ?val (rs @ [r]) k)) (group_keys key rs) =
               map (\<lambda>k. (k, ?val rs k)) (group_keys key rs)"
      by (intro map_cong) auto
    with True show ?thesis
      unfolding step by (simp add: bump_def group_keys_snoc)
  next
    case False
    show ?thesis
    proof (cases "?k0 \<in> set (group_keys key rs)")
      case True
      have "map (\<lambda>kv. if fst kv = ?k0 then (fst kv, upd r (snd kv)) else kv)
              (map (\<lambda>k. (k, ?val rs k)) (group_keys key rs)) =
            map (\<lambda>k. (k, ?val (rs @ [r]) k)) (group_keys key rs)"
        by (auto simp add: comp_def)
      with True False show ?thesis
        unfolding step by (simp add: bump_def group_keys_snoc map_of_tabulate_None)
    next
      case True': False
      then have "?k0 \<notin> key ` set rs"
        using False by (simp add: group_keys_set)
      then have none: "filter (\<lambda>r'. key r' = ?k0) rs = []"
        by (force simp add: filter_empty_conv image_iff)
      have "map (\<lambda>kv. if fst kv = ?k0 then (fst kv, upd r (snd kv)) else kv)
              (map (\<lambda>k. (k, ?val rs k)) (group_keys key rs)) =
            map (\<lambda>k. (k, ?val (rs @ [r]) k)) (group_keys key rs)"
        using True' by (auto simp add: comp_def)
      with True' False none show ?thesis
        unfolding step by (simp add: bump_def group_keys_snoc map_of_tabulate_None)
    qed
  qed
qed


text \<open>The two reducers as instances.\<close>

lemma foldl_add_trend:
  "foldl (\<lambda>v r. v\<lparr>updates := updates v + or_zero (total_updates r),
                    enrolments := enrolments v + or_zero (total_enrolment r)\<rparr>) p rs =
     p\<lparr>updates := updates p + (\<Sum>r\<leftarrow>rs. or_zero (total_updates r)),
       enrolments := enrolments p + (\<Sum>r\<leftarrow>rs. or_zero (total_enrolment r))\<rparr>"
  by (induction rs arbitrary: p) (simp_all add: algebra_simps)

lemma foldl_add_amount:
  "foldl (\<lambda>v r. v\<lparr>amount := amount v + or_zero (field r)\<rparr>) e rs =
     e\<lparr>amount := amount e + (\<Sum>r\<leftarrow>rs. or_zero (field r))\<rparr>"
  by (induction rs arbitrary: e) (simp_all add: algebra_simps)

lemma foldl_trend_reducer:
  "foldl trend_reducer [] rows = map (\<lambda>p. (tdate p, p)) (trend_groups rows)"
proof -
  have "trend_reducer =
      (\<lambda>acc r. bump acc (date_key r) \<lparr>tdate = date_key r, updates = 0, enrolments = 0\<rparr>
         (\<lambda>p. p\<lparr>updates := updates p + or_zero (total_updates r),
                enrolments := enrolments p + or_zero (total_enrolment r)\<rparr>))"
    by (intro ext) (simp add: trend_reducer_def Let_def)
  then have "foldl trend_reducer [] rows =
      foldl (\<lambda>acc r. bump acc (date_key r) \<lparr>tdate = date_key r, updates = 0, enrolments = 0\<rparr>
         (\<lambda>p. p\<lparr>updates := updates p + or_zero (total_updates r),
                enrolments := enrolments p + or_zero (total_enrolment r)\<rparr>)) [] rows"
    by (rule arg_cong)
  also have "\<dots> =
      map (\<lambda>k. (k, foldl (\<lambda>v r. v\<lparr>updates := updates v + or_zero (total_updates r),
                                     enrolments := enrolments v + or_zero (total_enrolment r)\<rparr>)
                     \<lparr>tdate = k, updates = 0, enrolments = 0\<rparr>
                     (filter (\<lambda>r. date_key r = k) rows)))
          (group_keys date_key rows)"
    by (rule bump_fold [of date_key "\<lambda>k. \<lparr>tdate = k, updates = 0, enrolments = 0\<rparr>"
          "\<lambda>r p. p\<lparr>updates := updates p + or_zero (total_updates r),
                   enrolments := enrolments p + or_zero (total_enrolment r)\<rparr>"])
  also have "\<dots> = map (\<lambda>p. (tdate p, p)) (trend_groups rows)"
    by (simp add: trend_groups_def group_sum_def foldl_add_trend comp_def)
  finally show ?thesis .
qed

lemma foldl_studio_reducer:
  "foldl (studio_reducer px py) [] rows = map (\<lambda>e. (name e, e)) (pivot_groups px py rows)"
proof -
  have "studio_reducer px py =
      (\<lambda>acc r. bump acc (pivot_key px r) \<lparr>name = pivot_key px r, amount = 0\<rparr>
         (\<lambda>e. e\<lparr>amount := amount e + or_zero (metric_field py r)\<rparr>))"
    by (intro ext) (simp add: studio_reducer_def Let_def)
  then have "foldl (studio_reducer px py) [] rows =
      foldl (\<lambda>acc r. bump acc (pivot_key px r) \<lparr>name = pivot_key px r, amount = 0\<rparr>
         (\<lambda>e. e\<lparr>amount := amount e + or_zero (metric_field py r)\<rparr>)) [] rows"
    by (rule arg_cong)
  also have "\<dots> =
      map (\<lambda>k. (k, foldl (\<lambda>v r. v\<lparr>amount := amount v + or_zero (metric_field py r)\<rparr>)
                     \<lparr>name = k, amount = 0\<rparr>
                     (filter (\<lambda>r. pivot_key px r = k) rows)))
          (group_keys (pivot_key px) rows)"
    by (rule bump_fold [of "pivot_key px" "\<lambda>k. \<lparr>name = k, amount = 0\<rparr>"
          "\<lambda>r e. e\<lparr>amount := amount e + or_zero (metric_field py r)\<rparr>"])
  also have "\<dots> = map (\<lambda>e. (name e, e)) (pivot_groups px py rows)"
    by (simp add: pivot_groups_def group_sum_def foldl_add_amount comp_def)
  finally show ?thesis .
qed

text \<open>Object.values and the sort rearrange, and do nothing else.\<close>

lemma mset_object_values: "mset (object_values obj) = mset (map snd obj)"
proof -
  have "mset (object_values obj) =
          image_mset snd (filter_mset (\<lambda>kv. is_index (fst kv)) (mset obj))
          + image_mset snd (filter_mset (\<lambda>kv. \<not> is_index (fst kv)) (mset obj))"
    by (simp add: object_values_def)
  also have "\<dots> = image_mset snd (mset obj)"
    by (simp flip: image_mset_union)
  finally show ?thesis by simp
qed

lemma object_values_no_index:
  assumes "\<forall>kv \<in> set obj. \<not> is_index (fst kv)"
  shows "object_values obj = map snd obj"
proof -
  have "filter (\<lambda>kv. is_index (fst kv)) obj = []"
    using assms by (simp add: filter_empty_conv)
  moreover have "filter (\<lambda>kv. \<not> is_index (fst kv)) obj = obj"
    using assms by (simp add: filter_id_conv)
  ultimately show ?thesis
    by (simp add: object_values_def)
qed

lemma mset_sort_insert: "mset (sort_insert cmp x ys) = add_mset x (mset ys)"
  by (induction ys) auto

lemma mset_array_sort: "mset (array_sort cmp xs) = mset xs"
  by (induction xs) (simp_all add: array_sort_def mset_sort_insert)

lemma set_array_sort: "set (array_sort cmp xs) = set xs"
  by (metis mset_array_sort set_mset_mset)

lemma sort_insert_insort_key:
  assumes "\<forall>y \<in> set ys. sorts_after cmp x y = (\<not> f x \<le> f y)"
  shows "sort_insert cmp x ys = insort_key f x ys"
  using assms by (induction ys) auto

lemma array_sort_sort_key:
  fixes f :: "'a \<Rightarrow> int"
  assumes "\<forall>x \<in> set xs. \<forall>y \<in> set xs. sorts_after cmp x y = (\<not> f x \<le> f y)"
  shows "array_sort cmp xs = sort_key f xs"
  using assms
proof (induction xs)
  case Nil
  show ?case by (simp add: array_sort_def)
next
  case (Cons x xs)
  then have IH: "array_sort cmp xs = sort_key f xs"
    by simp
  have "\<forall>y \<in> set (sort_key f xs). sorts_after cmp x y = (\<not> f x \<le> f y)"
    using Cons.prems by simp
  then have "sort_insert cmp x (sort_key f xs) = insort_key f x (sort_key f xs)"
    by (rule sort_insert_insort_key)
  then show ?case
    using IH by (simp add: array_sort_def)
qed

section \<open>Trend series\<close>

lemma trendData_mset: "mset (trendData h rows) = mset (trend_groups rows)"
proof (cases "rows = []")
  case True
  then show ?thesis
    by (simp add: trendData_def trend_groups_def group_keys_def)
next
  case False
  then show ?thesis
    by (simp add: trendData_def mset_array_sort mset_object_values foldl_trend_reducer comp_def)
qed

lemma trend_groups_dates: "map tdate (trend_groups rows) = group_keys date_key rows"
  by (simp add: trend_groups_def comp_def)

lemma trendData_dates_mset:
  "mset (map tdate (trendData h rows)) = mset (group_keys date_key rows)"
proof -
  have "mset (map tdate (trendData h rows)) = image_mset tdate (mset (trendData h rows))"
    by simp
  also have "\<dots> = image_mset tdate (mset (trend_groups rows))"
    by (simp only: trendData_mset)
  also have "\<dots> = mset (map tdate (trend_groups rows))"
    by simp
  finally show ?thesis
    by (simp only: trend_groups_dates)
qed

lemma trendData_distinct: "distinct (map tdate (trendData h rows))"
  using trendData_dates_mset [of h rows] group_keys_distinct [of date_key rows]
  by (metis mset_eq_imp_distinct_iff)

lemma trendData_dates_set:
  "tdate ` set (trendData h rows) = {k \<in> date_key ` set rows. \<not> inherited k}"
proof -
  have "set (map tdate (trendData h rows)) = set (group_keys date_key rows)"
    using trendData_dates_mset [of h rows] by (metis set_mset_mset)
  then show ?thesis
    by (simp add: group_keys_set)
qed


lemma trendData_parse:
  assumes "\<forall>r \<in> set rows. date_parse h (date_key r) \<noteq> None"
    and "p \<in> set (trendData h rows)"
  shows "\<exists>t. date_parse h (tdate p) = Some t"
proof -
  from assms(2) have "tdate p \<in> tdate ` set (trendData h rows)"
    by (rule imageI)
  then have "tdate p \<in> date_key ` set rows"
    by (simp add: trendData_dates_set)
  then obtain r where "r \<in> set rows" and "tdate p = date_key r"
    by auto
  with assms(1) show ?thesis
    by auto
qed

lemma date_cmp_sorts_after:
  assumes "date_parse h (tdate x) = Some tx" and "date_parse h (tdate y) = Some ty"
  shows "sorts_after (date_cmp h) x y =
           (\<not> the (date_parse h (tdate x)) \<le> the (date_parse h (tdate y)))"
  using assms by (auto simp add: sorts_after_def date_cmp_def)

lemma trendData_sort_key:
  assumes "\<forall>r \<in> set rows. date_parse h (date_key r) \<noteq> None"
  shows "trendData h rows =
           sort_key (\<lambda>p. the (date_parse h (tdate p)))
             (object_values (foldl trend_reducer [] rows))"
proof (cases "rows = []")
  case True
  then show ?thesis
    by (simp add: trendData_def object_values_def)
next
  case False
  let ?xs = "object_values (foldl trend_reducer [] rows)"
  have same: "set ?xs = set (trendData h rows)"
    using False by (simp add: trendData_def set_array_sort)
  have "\<forall>x \<in> set ?xs. \<forall>y \<in> set ?xs.
          sorts_after (date_cmp h) x y =
            (\<not> the (date_parse h (tdate x)) \<le> the (date_parse h (tdate y)))"
  proof (intro ballI)
    fix x y
    assume "x \<in> set ?xs" and "y \<in> set ?xs"
    then obtain tx ty
      where "date_parse h (tdate x) = Some tx" and "date_parse h (tdate y) = Some ty"
      using trendData_parse [OF assms] same by blast
    then show "sorts_after (date_cmp h) x y =
            (\<not> the (date_parse h (tdate x)) \<le> the (date_parse h (tdate y)))"
      by (rule date_cmp_sorts_after)
  qed
  then have "array_sort (date_cmp h) ?xs = sort_key (\<lambda>p. the (date_parse h (tdate p))) ?xs"
    by (rule array_sort_sort_key)
  then show ?thesis
    using False by (simp add: trendData_def)
qed

lemma trendData_sorted:
  assumes "\<forall>r \<in> set rows. date_parse h (date_key r) \<noteq> None"
  shows "sorted_wrt (not_later h) (trendData h rows)"
proof -
  let ?f = "\<lambda>p. the (date_parse h (tdate p))"
  have "sorted (map ?f (trendData h rows))"
    by (simp only: trendData_sort_key [OF assms] sorted_sort_key)
  then have s: "sorted_wrt (\<lambda>a b. ?f a \<le> ?f b) (trendData h rows)"
    by (simp only: sorted_map)
  show ?thesis
  proof (rule sorted_wrt_mono_rel [OF _ s])
    fix a b
    assume a: "a \<in> set (trendData h rows)" and b: "b \<in> set (trendData h rows)"
      and le: "?f a \<le> ?f b"
    obtain ta tb where "date_parse h (tdate a) = Some ta" and "date_parse h (tdate b) = Some tb"
      using trendData_parse [OF assms a] trendData_parse [OF assms b] by blast
    with le show "not_later h a b"
      by (simp add: not_later_def)
  qed
qed

lemma trendData_strictly_sorted:
  assumes "\<forall>r \<in> set rows. date_parse h (date_key r) \<noteq> None"
    and "inj_on (date_parse h) (date_key ` set rows)"
  shows "sorted_wrt (earlier h) (trendData h rows)"
proof -
  have sub: "tdate ` set (trendData h rows) \<subseteq> date_key ` set rows"
    by (auto simp add: trendData_dates_set)
  have dist: "distinct (trendData h rows)" and inj: "inj_on tdate (set (trendData h rows))"
    using trendData_distinct [of h rows] by (simp_all add: distinct_map)
  have both: "sorted_wrt (\<lambda>a b. not_later h a b \<and> a \<noteq> b) (trendData h rows)"
    using trendData_sorted [OF assms(1)] dist
    by (auto simp add: sorted_wrt_iff_nth_less nth_eq_iff_index_eq)
  show ?thesis
  proof (rule sorted_wrt_mono_rel [OF _ both])
    fix a b
    assume a: "a \<in> set (trendData h rows)" and b: "b \<in> set (trendData h rows)"
      and ab: "not_later h a b \<and> a \<noteq> b"
    from ab a b inj have "tdate a \<noteq> tdate b"
      by (auto dest: inj_onD)
    moreover have "tdate a \<in> date_key ` set rows" and "tdate b \<in> date_key ` set rows"
      using a b sub by auto
    ultimately have "date_parse h (tdate a) \<noteq> date_parse h (tdate b)"
      using assms(2) by (auto dest: inj_onD)
    with ab show "earlier h a b"
      by (auto simp add: not_later_def earlier_def split: option.splits)
  qed
qed

subsection \<open>Concrete runs\<close>

text \<open>The definitions a concrete run unfolds.\<close>

lemmas run_defs =
  bump_def inherited_def object_prototype_keys_def or_else_def or_zero_def blank_row_def
  object_values_def is_index_def index_of_def array_index_def digit_of_def array_sort_def
  sorts_after_def demo_host_def Let_def

lemmas trend_run_defs =
  trendData_def trend_reducer_def date_key_def date_cmp_def dated_def undated_def run_defs

lemma run_two_days:
  "trendData demo_host rows_two_days =
     [\<lparr>tdate = ''2025-01-01'', updates = 2, enrolments = 0\<rparr>,
      \<lparr>tdate = ''2025-01-02'', updates = 6, enrolments = 7\<rparr>]"
  by (simp add: rows_two_days_def trend_run_defs)

lemma run_undated_first:
  "trendData demo_host rows_undated_first =
     [\<lparr>tdate = ''N/A'', updates = 1, enrolments = 0\<rparr>,
      \<lparr>tdate = ''2025-01-01'', updates = 2, enrolments = 0\<rparr>]"
  by (simp add: rows_undated_first_def trend_run_defs)

lemma run_mixed_dates:
  "trendData demo_host rows_mixed_dates =
     [\<lparr>tdate = ''N/A'', updates = 13, enrolments = 3\<rparr>,
      \<lparr>tdate = ''garbage'', updates = 5, enrolments = 1\<rparr>]"
  by (simp add: rows_mixed_dates_def trend_run_defs)

lemma run_unparseable:
  "trendData demo_host rows_unparseable =
     [\<lparr>tdate = ''N/A'', updates = 1, enrolments = 0\<rparr>,
      \<lparr>tdate = ''2025-01-01'', updates = 2, enrolments = 0\<rparr>,
      \<lparr>tdate = ''garbage'', updates = 3, enrolments = 0\<rparr>]"
  by (simp add: rows_unparseable_def trend_run_defs)

subsection \<open>The trend series, claim by claim\<close>

text \<open>
  C5 (as amended). For every record set the trend series holds exactly one point per
  date key (a missing or empty date counting as the key \<^verbatim>\<open>'N/A'\<close>, and a key that names
  a member of \<^verbatim>\<open>Object.prototype\<close> forming no point), each with the sums of
  \<^verbatim>\<open>total_updates\<close> and \<^verbatim>\<open>total_enrolment\<close> over the rows of that key, and no key occurs
  twice. When every key is a parseable date, the points are in ascending order of their
  time values; the order is strict when, moreover, different keys have different time
  values.
\<close>

theorem trendData_merged_and_sorted:
  "mset (trendData h rows) = mset (trend_groups rows) \<and>
   distinct (map tdate (trendData h rows)) \<and>
   ((\<forall>r \<in> set rows. date_parse h (date_key r) \<noteq> None)
      \<longrightarrow> sorted_wrt (not_later h) (trendData h rows)) \<and>
   ((\<forall>r \<in> set rows. date_parse h (date_key r) \<noteq> None) \<and>
    inj_on (date_parse h) (date_key ` set rows)
      \<longrightarrow> sorted_wrt (earlier h) (trendData h rows))"
  using trendData_mset trendData_distinct trendData_sorted trendData_strictly_sorted
  by blast

theorem trendData_merged_and_sorted_witness:
  "trendData demo_host rows_two_days =
     [\<lparr>tdate = ''2025-01-01'', updates = 2, enrolments = 0\<rparr>,
      \<lparr>tdate = ''2025-01-02'', updates = 6, enrolments = 7\<rparr>] \<and>
   mset (trendData demo_host rows_two_days) = mset (trend_groups rows_two_days) \<and>
   distinct (map tdate (trendData demo_host rows_two_days)) \<and>
   sorted_wrt (earlier demo_host) (trendData demo_host rows_two_days)"
proof -
  have parse: "\<forall>r \<in> set rows_two_days. date_parse demo_host (date_key r) \<noteq> None"
    by (simp add: rows_two_days_def trend_run_defs)
  have "date_key ` set rows_two_days = {''2025-01-02'', ''2025-01-01'', ''2025-01-02''}"
    by (simp add: rows_two_days_def trend_run_defs)
  then have inj: "inj_on (date_parse demo_host) (date_key ` set rows_two_days)"
    by (auto simp add: inj_on_def demo_host_def split: if_splits)
  from trendData_merged_and_sorted [of demo_host rows_two_days] parse inj
  have "mset (trendData demo_host rows_two_days) = mset (trend_groups rows_two_days)"
    and "distinct (map tdate (trendData demo_host rows_two_days))"
    and "sorted_wrt (earlier demo_host) (trendData demo_host rows_two_days)"
    by blast+
  with run_two_days show ?thesis
    by (intro conjI)
qed

text \<open>
  C5 as stated fails as soon as a row has no date: its bucket \<^verbatim>\<open>'N/A'\<close> has no time value,
  every comparison with it is NaN, and the stable sort leaves it where the reducer put
  it, here in front of a dated point. The series is then not increasing by date, in the
  strict or in the weak sense.
\<close>

theorem trendData_undated_counterexample:
  "trendData demo_host rows_undated_first =
     [\<lparr>tdate = ''N/A'', updates = 1, enrolments = 0\<rparr>,
      \<lparr>tdate = ''2025-01-01'', updates = 2, enrolments = 0\<rparr>] \<and>
   \<not> sorted_wrt (earlier demo_host) (trendData demo_host rows_undated_first) \<and>
   \<not> sorted_wrt (not_later demo_host) (trendData demo_host rows_undated_first)"
  by (simp only: run_undated_first) (simp add: earlier_def not_later_def demo_host_def)

lemma filter_eq_distinct:
  "distinct ks \<Longrightarrow> filter (\<lambda>k. k = a) ks = (if a \<in> set ks then [a] else [])"
  by (induction ks) auto

lemma key_in_group_keys:
  "(k \<in> set (group_keys date_key rows)) =
     ((\<exists>r \<in> set rows. date_key r = k) \<and> \<not> inherited k)"
  by (force simp add: group_keys_set)

lemma unknown_not_inherited: "\<not> inherited ''N/A''"
  by (simp add: inherited_def object_prototype_keys_def)

text \<open>The points of one key: the bucket of that key, if the key has one.\<close>

lemma trend_groups_bucket:
  "filter (\<lambda>p. tdate p = k) (trend_groups rows) =
     (if (\<exists>r \<in> set rows. date_key r = k) \<and> \<not> inherited k
      then [\<lparr>tdate = k, updates = group_sum total_updates date_key k rows,
             enrolments = group_sum total_enrolment date_key k rows\<rparr>]
      else [])"
proof -
  have "filter (\<lambda>p. tdate p = k) (trend_groups rows) =
        map (\<lambda>k. \<lparr>tdate = k, updates = group_sum total_updates date_key k rows,
                   enrolments = group_sum total_enrolment date_key k rows\<rparr>)
            (filter (\<lambda>k'. k' = k) (group_keys date_key rows))"
    by (simp add: trend_groups_def filter_map comp_def)
  also have "filter (\<lambda>k'. k' = k) (group_keys date_key rows) =
        (if (\<exists>r \<in> set rows. date_key r = k) \<and> \<not> inherited k then [k] else [])"
    by (simp only: filter_eq_distinct [OF group_keys_distinct] key_in_group_keys)
  finally show ?thesis
    by simp
qed

lemma mset_eq_short:
  assumes "mset xs = mset ys" and "length ys \<le> 1"
  shows "xs = ys"
proof (cases ys)
  case Nil
  with assms(1) show ?thesis
    by simp
next
  case (Cons y zs)
  with assms(2) have "ys = [y]"
    by simp
  with assms(1) show ?thesis
    by simp
qed

lemma trendData_bucket:
  "filter (\<lambda>p. tdate p = k) (trendData h rows) =
     (if (\<exists>r \<in> set rows. date_key r = k) \<and> \<not> inherited k
      then [\<lparr>tdate = k, updates = group_sum total_updates date_key k rows,
             enrolments = group_sum total_enrolment date_key k rows\<rparr>]
      else [])"
proof -
  have "filter (\<lambda>p. tdate p = k) (trendData h rows) =
        filter (\<lambda>p. tdate p = k) (trend_groups rows)"
  proof (rule mset_eq_short)
    show "mset (filter (\<lambda>p. tdate p = k) (trendData h rows)) =
          mset (filter (\<lambda>p. tdate p = k) (trend_groups rows))"
      by (simp add: trendData_mset)
    show "length (filter (\<lambda>p. tdate p = k) (trend_groups rows)) \<le> 1"
      by (simp add: trend_groups_bucket)
  qed
  then show ?thesis
    by (simp only: trend_groups_bucket)
qed

text \<open>Which rows a key stands for.\<close>

lemma date_key_unknown:
  "(date_key r = ''N/A'') = (date r = None \<or> date r = Some '''' \<or> date r = Some ''N/A'')"
  by (auto simp add: date_key_def or_else_def split: option.splits)

lemma date_key_text:
  assumes "s \<noteq> []" and "s \<noteq> ''N/A''"
  shows "(date_key r = s) = (date r = Some s)"
  using assms by (auto simp add: date_key_def or_else_def split: option.splits)

lemma group_sum_text:
  assumes "s \<noteq> []" and "s \<noteq> ''N/A''"
  shows "group_sum field date_key s rows =
           (\<Sum>r\<leftarrow>filter (\<lambda>r. date r = Some s) rows. or_zero (field r))"
  by (simp add: group_sum_def date_key_text [OF assms])

lemma group_sum_unknown:
  "group_sum field date_key ''N/A'' rows =
     (\<Sum>r\<leftarrow>filter (\<lambda>r. date r = None \<or> date r = Some '''' \<or> date r = Some ''N/A'') rows.
        or_zero (field r))"
  by (simp add: group_sum_def date_key_unknown)

text \<open>
  C6 (as amended). A record whose date is missing, empty or the text \<^verbatim>\<open>'N/A'\<close> goes to
  the bucket \<^verbatim>\<open>'N/A'\<close>: the trend series holds that bucket exactly once when there is such
  a record, with the sums over all such records, and not at all otherwise. Any other date
  text, parseable or not, has exactly one bucket of its own, with the sums over the
  records that carry that text, unless the text names a member of \<^verbatim>\<open>Object.prototype\<close>:
  such a text gets no bucket.
\<close>

theorem trendData_unknown_bucket:
  "filter (\<lambda>p. tdate p = ''N/A'') (trendData h rows) =
     (if \<exists>r \<in> set rows. date r = None \<or> date r = Some '''' \<or> date r = Some ''N/A''
      then [\<lparr>tdate = ''N/A'',
             updates =
               (\<Sum>r\<leftarrow>filter (\<lambda>r. date r = None \<or> date r = Some '''' \<or> date r = Some ''N/A'')
                     rows. or_zero (total_updates r)),
             enrolments =
               (\<Sum>r\<leftarrow>filter (\<lambda>r. date r = None \<or> date r = Some '''' \<or> date r = Some ''N/A'')
                     rows. or_zero (total_enrolment r))\<rparr>]
      else []) \<and>
   (s \<noteq> [] \<and> s \<noteq> ''N/A'' \<longrightarrow>
      filter (\<lambda>p. tdate p = s) (trendData h rows) =
        (if (\<exists>r \<in> set rows. date r = Some s) \<and> \<not> inherited s
         then [\<lparr>tdate = s,
                updates = (\<Sum>r\<leftarrow>filter (\<lambda>r. date r = Some s) rows. or_zero (total_updates r)),
                enrolments =
                  (\<Sum>r\<leftarrow>filter (\<lambda>r. date r = Some s) rows. or_zero (total_enrolment r))\<rparr>]
         else []))"
proof (intro conjI impI)
  show "filter (\<lambda>p. tdate p = ''N/A'') (trendData h rows) =
     (if \<exists>r \<in> set rows. date r = None \<or> date r = Some '''' \<or> date r = Some ''N/A''
      then [\<lparr>tdate = ''N/A'',
             updates =
               (\<Sum>r\<leftarrow>filter (\<lambda>r. date r = None \<or> date r = Some '''' \<or> date r = Some ''N/A'')
                     rows. or_zero (total_updates r)),
             enrolments =
               (\<Sum>r\<leftarrow>filter (\<lambda>r. date r = None \<or> date r = Some '''' \<or> date r = Some ''N/A'')
                     rows. or_zero (total_enrolment r))\<rparr>]
      else [])"
    by (auto simp add: trendData_bucket group_sum_unknown date_key_unknown
        unknown_not_inherited)
next
  assume "s \<noteq> [] \<and> s \<noteq> ''N/A''"
  then have s: "s \<noteq> []" "s \<noteq> ''N/A''"
    by simp_all
  show "filter (\<lambda>p. tdate p = s) (trendData h rows) =
        (if (\<exists>r \<in> set rows. date r = Some s) \<and> \<not> inherited s
         then [\<lparr>tdate = s,
                updates = (\<Sum>r\<leftarrow>filter (\<lambda>r. date r = Some s) rows. or_zero (total_updates r)),
                enrolments =
                  (\<Sum>r\<leftarrow>filter (\<lambda>r. date r = Some s) rows. or_zero (total_enrolment r))\<rparr>]
         else [])"
    by (simp add: trendData_bucket group_sum_text [OF s] date_key_text [OF s])
qed

theorem trendData_unknown_bucket_witness:
  "trendData demo_host rows_mixed_dates =
     [\<lparr>tdate = ''N/A'', updates = 13, enrolments = 3\<rparr>,
      \<lparr>tdate = ''garbage'', updates = 5, enrolments = 1\<rparr>] \<and>
   filter (\<lambda>p. tdate p = ''N/A'') (trendData demo_host rows_mixed_dates) =
     [\<lparr>tdate = ''N/A'', updates = 13, enrolments = 3\<rparr>] \<and>
   filter (\<lambda>p. tdate p = ''garbage'') (trendData demo_host rows_mixed_dates) =
     [\<lparr>tdate = ''garbage'', updates = 5, enrolments = 1\<rparr>] \<and>
   filter (\<lambda>p. tdate p = ''constructor'') (trendData demo_host rows_mixed_dates) = []"
proof -
  have unknown: "filter (\<lambda>p. tdate p = ''N/A'') (trendData demo_host rows_mixed_dates) =
     [\<lparr>tdate = ''N/A'', updates = 13, enrolments = 3\<rparr>]"
    using trendData_unknown_bucket [of demo_host rows_mixed_dates "''garbage''"]
    by (simp add: rows_mixed_dates_def dated_def undated_def blank_row_def or_zero_def)
  have garbage: "filter (\<lambda>p. tdate p = ''garbage'') (trendData demo_host rows_mixed_dates) =
     [\<lparr>tdate = ''garbage'', updates = 5, enrolments = 1\<rparr>]"
    using trendData_unknown_bucket [of demo_host rows_mixed_dates "''garbage''"]
    by (simp add: rows_mixed_dates_def dated_def undated_def blank_row_def or_zero_def
        inherited_def object_prototype_keys_def)
  have inherited: "filter (\<lambda>p. tdate p = ''constructor'') (trendData demo_host rows_mixed_dates) = []"
    using trendData_unknown_bucket [of demo_host rows_mixed_dates "''constructor''"]
    by (simp add: inherited_def object_prototype_keys_def)
  from run_mixed_dates unknown garbage inherited show ?thesis
    by (intro conjI)
qed

text \<open>
  C6 as stated fails on both counts: the unparseable date \<^verbatim>\<open>'garbage'\<close> is a bucket of its
  own beside \<^verbatim>\<open>'N/A'\<close>, and \<^verbatim>\<open>'N/A'\<close> comes first, not last. (With at most one parseable
  date in the set, every comparison is NaN or zero, so a stable sort keeps the order of
  first appearance.)
\<close>

theorem trendData_unknown_counterexample:
  "trendData demo_host rows_unparseable =
     [\<lparr>tdate = ''N/A'', updates = 1, enrolments = 0\<rparr>,
      \<lparr>tdate = ''2025-01-01'', updates = 2, enrolments = 0\<rparr>,
      \<lparr>tdate = ''garbage'', updates = 3, enrolments = 0\<rparr>] \<and>
   date_parse demo_host ''garbage'' = None \<and>
   tdate (last (trendData demo_host rows_unparseable)) \<noteq> ''N/A''"
  by (simp only: run_unparseable) (simp add: demo_host_def)

section \<open>Pivot\<close>

lemma amount_cmp_sort_key: "array_sort amount_cmp xs = sort_key (\<lambda>e. - amount e) xs"
proof (rule array_sort_sort_key)
  show "\<forall>x \<in> set xs. \<forall>y \<in> set xs.
          sorts_after amount_cmp x y = (\<not> - amount x \<le> - amount y)"
    by (auto simp add: sorts_after_def amount_cmp_def)
qed

text \<open>The list \<^verbatim>\<open>studioData\<close> truncates: the groups as listed by Object.values, sorted.\<close>

lemma studioData_take:
  "studioData px py rows =
     take 12 (sort_key (\<lambda>e. - amount e)
                (object_values (map (\<lambda>e. (name e, e)) (pivot_groups px py rows))))"
proof (cases "rows = []")
  case True
  then show ?thesis
    by (simp add: studioData_def pivot_groups_def group_keys_def object_values_def)
next
  case False
  then show ?thesis
    by (simp add: studioData_def amount_cmp_sort_key foldl_studio_reducer)
qed

lemma pivot_listing_mset:
  "mset (sort_key (\<lambda>e. - amount e)
           (object_values (map (\<lambda>e. (name e, e)) (pivot_groups px py rows)))) =
   mset (pivot_groups px py rows)"
  by (simp add: mset_object_values comp_def)

lemma pivot_listing_sorted:
  "sorted_wrt (\<lambda>a b. amount b \<le> amount a) (sort_key (\<lambda>e. - amount e) xs)"
proof -
  have "sorted (map (\<lambda>e. - amount e) (sort_key (\<lambda>e. - amount e) xs))"
    by (rule sorted_sort_key)
  then show ?thesis
    by (simp add: sorted_map)
qed

lemma pivot_no_index:
  assumes "\<forall>r \<in> set rows. \<not> is_index (pivot_key px r)"
  shows "object_values (map (\<lambda>e. (name e, e)) (pivot_groups px py rows)) =
           pivot_groups px py rows"
proof -
  have "\<forall>kv \<in> set (map (\<lambda>e. (name e, e)) (pivot_groups px py rows)). \<not> is_index (fst kv)"
    using assms by (auto simp add: pivot_groups_def group_keys_set)
  then have "object_values (map (\<lambda>e. (name e, e)) (pivot_groups px py rows)) =
        map snd (map (\<lambda>e. (name e, e)) (pivot_groups px py rows))"
    by (rule object_values_no_index)
  then show ?thesis
    by (simp add: comp_def)
qed

lemma pivot_ties:
  assumes "\<forall>r \<in> set rows. \<not> is_index (pivot_key px r)"
  shows "filter (\<lambda>e. amount e = v)
           (sort_key (\<lambda>e. - amount e)
              (object_values (map (\<lambda>e. (name e, e)) (pivot_groups px py rows)))) =
         filter (\<lambda>e. amount e = v) (pivot_groups px py rows)"
proof -
  have "filter (\<lambda>e. - amount e = - v) (sort_key (\<lambda>e. - amount e) (pivot_groups px py rows)) =
        filter (\<lambda>e. - amount e = - v) (pivot_groups px py rows)"
    by (rule sort_key_stable)
  then show ?thesis
    by (simp add: pivot_no_index [OF assms])
qed

lemma studioData_length:
  "length (studioData px py rows) = min 12 (length (group_keys (pivot_key px) rows))"
proof -
  have "length (sort_key (\<lambda>e. - amount e)
           (object_values (map (\<lambda>e. (name e, e)) (pivot_groups px py rows)))) =
        length (pivot_groups px py rows)"
    using pivot_listing_mset [of px py rows] by (rule mset_eq_length)
  then show ?thesis
    by (simp add: studioData_take pivot_groups_def min.commute)
qed

lemmas pivot_run_defs =
  studioData_def studio_reducer_def pivot_key_def amount_cmp_def in_district_def run_defs

lemma run_tied:
  "studioData ByDistrict TotalUpdates rows_tied_districts =
     [\<lparr>name = ''Udupi'', amount = 9\<rparr>, \<lparr>name = ''Mysuru'', amount = 5\<rparr>,
      \<lparr>name = ''Bidar'', amount = 5\<rparr>, \<lparr>name = ''Unknown'', amount = 1\<rparr>]"
  by (simp add: rows_tied_districts_def pivot_run_defs)

lemma run_numbered:
  "studioData ByDistrict TotalUpdates rows_numbered_districts =
     [\<lparr>name = ''1'', amount = 5\<rparr>, \<lparr>name = ''2'', amount = 5\<rparr>]"
  by (simp add: rows_numbered_districts_def pivot_run_defs)

text \<open>A dimension value that names a member of \<^verbatim>\<open>Object.prototype\<close> forms no group.\<close>

lemma run_inherited_name:
  "studioData ByDistrict TotalUpdates rows_inherited_name = [\<lparr>name = ''Udupi'', amount = 3\<rparr>]"
  by (simp add: rows_inherited_name_def pivot_run_defs)

lemma keys_fifteen:
  "length (group_keys (pivot_key ByDistrict) rows_fifteen_districts) = 15"
  by (simp add: rows_fifteen_districts_def group_keys_def pivot_run_defs)

lemma groups_tied:
  "pivot_groups ByDistrict TotalUpdates rows_tied_districts =
     [\<lparr>name = ''Mysuru'', amount = 5\<rparr>, \<lparr>name = ''Udupi'', amount = 9\<rparr>,
      \<lparr>name = ''Bidar'', amount = 5\<rparr>, \<lparr>name = ''Unknown'', amount = 1\<rparr>]"
  by (simp add: rows_tied_districts_def pivot_groups_def group_keys_def group_sum_def pivot_run_defs)

text \<open>
  C7 (as amended). For every record set and every selection, \<^verbatim>\<open>studioData\<close> is the first
  12 entries of a list that holds exactly one group per dimension value (\<^verbatim>\<open>"Unknown"\<close>
  standing for a missing or empty value, and a value that names a member of
  \<^verbatim>\<open>Object.prototype\<close> forming no group), each with the sum of the metric over its rows,
  in descending order of that sum. When no group name is an array index, groups with
  equal sums stand in the order of first appearance. The result has the length
  \<open>min 12 n\<close> for \<open>n\<close> groups: exactly 12 from 12 groups on.
\<close>

theorem studioData_top_groups:
  "(\<exists>full. studioData px py rows = take 12 full \<and>
      mset full = mset (pivot_groups px py rows) \<and>
      sorted_wrt (\<lambda>a b. amount b \<le> amount a) full \<and>
      ((\<forall>r \<in> set rows. \<not> is_index (pivot_key px r)) \<longrightarrow>
         (\<forall>v. filter (\<lambda>e. amount e = v) full =
              filter (\<lambda>e. amount e = v) (pivot_groups px py rows)))) \<and>
   length (studioData px py rows) = min 12 (length (group_keys (pivot_key px) rows)) \<and>
   ((dimension_field px r = None \<or> dimension_field px r = Some '''')
      \<longrightarrow> pivot_key px r = ''Unknown'')"
proof (intro conjI)
  let ?full = "sort_key (\<lambda>e. - amount e)
                 (object_values (map (\<lambda>e. (name e, e)) (pivot_groups px py rows)))"
  show "\<exists>full. studioData px py rows = take 12 full \<and>
      mset full = mset (pivot_groups px py rows) \<and>
      sorted_wrt (\<lambda>a b. amount b \<le> amount a) full \<and>
      ((\<forall>r \<in> set rows. \<not> is_index (pivot_key px r)) \<longrightarrow>
         (\<forall>v. filter (\<lambda>e. amount e = v) full =
              filter (\<lambda>e. amount e = v) (pivot_groups px py rows)))"
  proof (intro exI [of _ ?full] conjI impI allI)
    show "studioData px py rows = take 12 ?full"
      by (rule studioData_take)
    show "mset ?full = mset (pivot_groups px py rows)"
      by (rule pivot_listing_mset)
    show "sorted_wrt (\<lambda>a b. amount b \<le> amount a) ?full"
      by (rule pivot_listing_sorted)
  next
    fix v
    assume "\<forall>r \<in> set rows. \<not> is_index (pivot_key px r)"
    then show "filter (\<lambda>e. amount e = v) ?full =
               filter (\<lambda>e. amount e = v) (pivot_groups px py rows)"
      by (rule pivot_ties)
  qed
next
  show "length (studioData px py rows) = min 12 (length (group_keys (pivot_key px) rows))"
    by (rule studioData_length)
next
  show "(dimension_field px r = None \<or> dimension_field px r = Some '''')
      \<longrightarrow> pivot_key px r = ''Unknown''"
    by (auto simp add: pivot_key_def or_else_def)
qed

theorem studioData_top_groups_witness:
  "studioData ByDistrict TotalUpdates rows_tied_districts =
     [\<lparr>name = ''Udupi'', amount = 9\<rparr>, \<lparr>name = ''Mysuru'', amount = 5\<rparr>,
      \<lparr>name = ''Bidar'', amount = 5\<rparr>, \<lparr>name = ''Unknown'', amount = 1\<rparr>] \<and>
   (\<exists>full. studioData ByDistrict TotalUpdates rows_tied_districts = take 12 full \<and>
      filter (\<lambda>e. amount e = 5) full =
        [\<lparr>name = ''Mysuru'', amount = 5\<rparr>, \<lparr>name = ''Bidar'', amount = 5\<rparr>]) \<and>
   length (studioData ByDistrict TotalUpdates rows_fifteen_districts) = 12"
proof -
  have no_index: "\<forall>r \<in> set rows_tied_districts. \<not> is_index (pivot_key ByDistrict r)"
    by (simp add: rows_tied_districts_def pivot_run_defs)
  from studioData_top_groups [of ByDistrict TotalUpdates rows_tied_districts blank_row] no_index
  obtain full where "studioData ByDistrict TotalUpdates rows_tied_districts = take 12 full"
    and "filter (\<lambda>e. amount e = 5) full =
         filter (\<lambda>e. amount e = 5) (pivot_groups ByDistrict TotalUpdates rows_tied_districts)"
    by blast
  then have ties: "\<exists>full. studioData ByDistrict TotalUpdates rows_tied_districts = take 12 full \<and>
      filter (\<lambda>e. amount e = 5) full =
        [\<lparr>name = ''Mysuru'', amount = 5\<rparr>, \<lparr>name = ''Bidar'', amount = 5\<rparr>]"
    by (auto simp add: groups_tied)
  from studioData_top_groups [of ByDistrict TotalUpdates rows_fifteen_districts blank_row]
  have "length (studioData ByDistrict TotalUpdates rows_fifteen_districts) =
          min 12 (length (group_keys (pivot_key ByDistrict) rows_fifteen_districts))"
    by (rule conjunct2 [THEN conjunct1])
  then have "length (studioData ByDistrict TotalUpdates rows_fifteen_districts) = 12"
    by (simp only: keys_fifteen)
  with run_tied ties show ?thesis
    by (intro conjI)
qed

text \<open>
  C7 as stated fails where group names are array indices: Object.values lists such keys
  in ascending numeric order before the sort sees them. Of two districts \<^verbatim>\<open>"2"\<close> and
  \<^verbatim>\<open>"1"\<close> with equal sums, \<^verbatim>\<open>"2"\<close> is seen first and \<^verbatim>\<open>"1"\<close> comes out first.
\<close>

theorem studioData_numbered_counterexample:
  "studioData ByDistrict TotalUpdates rows_numbered_districts =
     [\<lparr>name = ''1'', amount = 5\<rparr>, \<lparr>name = ''2'', amount = 5\<rparr>] \<and>
   map (pivot_key ByDistrict) rows_numbered_districts = [''2'', ''1''] \<and>
   map (\<lambda>r. or_zero (total_updates r)) rows_numbered_districts = [5, 5]"
  by (simp only: run_numbered) (simp add: rows_numbered_districts_def pivot_run_defs)

end
